theory Spec2Isabelle
  imports Complex_Main "HOL-Library.Sublist"
begin

section \<open>Data model\<close>

text \<open>
  GeoJSON features as the map component handles them. A position is the pair
  \<^verbatim>\<open>[longitude, latitude]\<close>. JavaScript numbers are modelled as reals: the pipeline only
  compares them and takes the sign of a difference, and on finite doubles both agree with
  the order of the reals. A numeric attribute that is absent from \<^verbatim>\<open>properties\<close> reads as
  \<^verbatim>\<open>undefined\<close>; it is \<open>None\<close> here.
\<close>

type_synonym position = "real \<times> real"

datatype geometry_type = Point | LineString | Polygon

record geometry =
  gtype :: geometry_type
  coordinates :: "position list list"

record properties =
  percentile :: "real option"
  acres :: "real option"
  common_name :: "string option"
  selected :: "bool option"

record feature =
  geometry :: geometry
  properties :: properties

text \<open>What the ArcGIS parks service returns for one park, before \<^verbatim>\<open>fetchParks\<close> reshapes it.\<close>

record arcgis_feature =
  rings :: "position list list"
  attributes :: properties

datatype plan_type = Park | Trail

record plan =
  ptype :: plan_type
  location :: feature
  environmentalRating :: "real option"
  guide :: string

text \<open>
  The React state of \<^verbatim>\<open>MapComponent\<close>; every slot starts as \<^verbatim>\<open>null\<close>. The viewport and the
  map camera are presentation and are left out.
\<close>

record map_state =
  environmentalData :: "feature list option"
  bikePaths :: "feature list option"
  parks :: "feature list option"
  userLocation :: "position option"
  healthyPlan :: "plan option"
  bikePathsContent :: "feature list option"
  selectedParkId :: "string option"
  route :: "geometry option"

datatype js_error = TypeError

datatype service_error = NetworkError

text \<open>
  The three primitives imported from the geometry library (\<^verbatim>\<open>@turf/turf\<close>) are parameters
  of the model: every theorem below holds for any implementation of them. \<^verbatim>\<open>center\<close> reads
  the geometry only.
\<close>

record turf =
  center :: "geometry \<Rightarrow> position"
  buffer :: "position \<Rightarrow> real \<Rightarrow> geometry"
  booleanPointInPolygon :: "position \<Rightarrow> geometry \<Rightarrow> bool"

text \<open>
  The two remote services the plan builder calls. The text of the narrative prompt is not
  modelled: a prompt is the acres value that \<^verbatim>\<open>toFixed\<close> formats, with the properties it
  is interpolated from. \<open>Inl\<close> is any failure of the request (a rejected promise, or a
  response without the expected fields).
\<close>

datatype prompt = Prompt real properties

record services =
  narrative :: "prompt \<Rightarrow> service_error + string"
  directions :: "position \<Rightarrow> position \<Rightarrow> service_error + geometry"

section \<open>JavaScript primitives\<close>

text \<open>\<^verbatim>\<open>a > b\<close> on numeric attributes: \<^verbatim>\<open>undefined\<close> converts to NaN and the comparison is false.\<close>

definition js_gt :: "real option \<Rightarrow> real option \<Rightarrow> bool" where
  "js_gt a b = (case a of None \<Rightarrow> False | Some x \<Rightarrow> (case b of None \<Rightarrow> False | Some y \<Rightarrow> x > y))"

text \<open>\<^verbatim>\<open>a - b\<close>: NaN (\<open>None\<close>) as soon as one operand is \<^verbatim>\<open>undefined\<close>.\<close>

definition js_minus :: "real option \<Rightarrow> real option \<Rightarrow> real option" where
  "js_minus a b = (case a of None \<Rightarrow> None | Some x \<Rightarrow> (case b of None \<Rightarrow> None | Some y \<Rightarrow> Some (x - y)))"

text \<open>\<^verbatim>\<open>Array.prototype.reduce\<close> without an initial value: a TypeError on the empty array.\<close>

fun reduce :: "('a \<Rightarrow> 'a \<Rightarrow> 'a) \<Rightarrow> 'a list \<Rightarrow> js_error + 'a" where
  "reduce f [] = Inl TypeError"
| "reduce f (x # xs) = Inr (foldl f x xs)"

text \<open>
  \<^verbatim>\<open>Array.prototype.sort(comparefn)\<close>. The language turns a NaN result of the comparator
  into \<open>+0\<close> (\<open>SortCompare\<close>) and requires the sort to be stable. For a consistent comparator
  every conforming engine returns the same array, the one the stable insertion sort below
  computes. For an inconsistent comparator the order is implementation-defined, and the
  insertion sort is only one possible engine.
\<close>

definition SortCompare :: "('a \<Rightarrow> 'a \<Rightarrow> real option) \<Rightarrow> 'a \<Rightarrow> 'a \<Rightarrow> real" where
  "SortCompare comparefn x y = (case comparefn x y of None \<Rightarrow> 0 | Some v \<Rightarrow> v)"

fun sort_insert :: "('a \<Rightarrow> 'a \<Rightarrow> real option) \<Rightarrow> 'a \<Rightarrow> 'a list \<Rightarrow> 'a list" where
  "sort_insert comparefn x [] = [x]"
| "sort_insert comparefn x (y # ys) =
     (if SortCompare comparefn x y \<le> 0 then x # y # ys
      else y # sort_insert comparefn x ys)"

fun js_sort :: "('a \<Rightarrow> 'a \<Rightarrow> real option) \<Rightarrow> 'a list \<Rightarrow> 'a list" where
  "js_sort comparefn [] = []"
| "js_sort comparefn (x # xs) = sort_insert comparefn x (js_sort comparefn xs)"

section \<open>Fetching the collections\<close>

definition SD_BOUNDS :: "real list" where
  "SD_BOUNDS = [-117.6, 32.5, -116.1, 33.5]"

definition isWithinSanDiego :: "position \<Rightarrow> bool" where
  "isWithinSanDiego p =
     (case p of (lon, lat) \<Rightarrow>
        lon \<ge> SD_BOUNDS ! 0 \<and> lon \<le> SD_BOUNDS ! 2 \<and>
        lat \<ge> SD_BOUNDS ! 1 \<and> lat \<le> SD_BOUNDS ! 3)"

text \<open>A failed request is caught and logged; the state keeps what it had.\<close>

definition fetchEnvironmentalData ::
  "turf \<Rightarrow> service_error + feature list \<Rightarrow> map_state \<Rightarrow> map_state" where
  "fetchEnvironmentalData T response s =
     (case response of
        Inl e \<Rightarrow> s
      | Inr features \<Rightarrow>
          s\<lparr>environmentalData :=
              Some (filter (\<lambda>f. isWithinSanDiego (center T (geometry f))) features)\<rparr>)"

text \<open>\<^verbatim>\<open>bikePathsData\<close> is the bundled dataset; it is stored as it is.\<close>

definition loadBikePaths :: "feature list \<Rightarrow> map_state \<Rightarrow> map_state" where
  "loadBikePaths bikePathsData s = s\<lparr>bikePaths := Some bikePathsData\<rparr>"

definition fetchParks ::
  "turf \<Rightarrow> service_error + arcgis_feature list \<Rightarrow> map_state \<Rightarrow> map_state" where
  "fetchParks T response s =
     (case response of
        Inl e \<Rightarrow> s
      | Inr features \<Rightarrow>
          s\<lparr>parks :=
              Some (filter (\<lambda>f. isWithinSanDiego (center T (geometry f)))
                      (map (\<lambda>a. \<lparr>geometry = \<lparr>gtype = Polygon, coordinates = rings a\<rparr>,
                                 properties = attributes a\<rparr>) features))\<rparr>)"

definition fetchBikePathsData :: "service_error + feature list \<Rightarrow> map_state \<Rightarrow> map_state" where
  "fetchBikePathsData response s =
     (case response of Inl e \<Rightarrow> s | Inr data \<Rightarrow> s\<lparr>bikePathsContent := Some data\<rparr>)"

definition getUserLocation :: "service_error + position \<Rightarrow> map_state \<Rightarrow> map_state" where
  "getUserLocation response s =
     (case response of Inl e \<Rightarrow> s | Inr p \<Rightarrow> s\<lparr>userLocation := Some p\<rparr>)"

section \<open>The recommendation pipeline\<close>

text \<open>
  The radius filter both versions of \<^verbatim>\<open>findBestEnvironmentalParcel\<close> start with: the
  features whose centre lies inside the buffer polygon around the user's position. The
  source calls it with radius 2 (miles).
\<close>

definition withinBuffer :: "turf \<Rightarrow> position \<Rightarrow> real \<Rightarrow> feature list \<Rightarrow> feature list" where
  "withinBuffer T userPoint radius features =
     filter (\<lambda>f. booleanPointInPolygon T (center T (geometry f)) (buffer T userPoint radius))
       features"

definition parksInParcel :: "turf \<Rightarrow> feature list \<Rightarrow> feature \<Rightarrow> feature list" where
  "parksInParcel T fs parcel =
     filter (\<lambda>park. booleanPointInPolygon T (center T (geometry park)) (geometry parcel)) fs"

definition trailsInParcel :: "turf \<Rightarrow> feature list \<Rightarrow> feature \<Rightarrow> feature list" where
  "trailsInParcel T fs parcel =
     filter (\<lambda>trail. booleanPointInPolygon T (center T (geometry trail)) (geometry parcel)) fs"

text \<open>The comparator of the ranking: \<^verbatim>\<open>(a, b) => b.properties.percentile - a.properties.percentile\<close>.\<close>

definition by_percentile_desc :: "feature \<Rightarrow> feature \<Rightarrow> real option" where
  "by_percentile_desc a b = js_minus (percentile (properties b)) (percentile (properties a))"

text \<open>The \<^verbatim>\<open>for\<close> loop over the ranked parcels: the first one with a park inside.\<close>

fun first_parcel_with_park :: "turf \<Rightarrow> feature list \<Rightarrow> feature list \<Rightarrow> feature option" where
  "first_parcel_with_park T pk [] = None"
| "first_parcel_with_park T pk (parcel # rest) =
     (if length (parksInParcel T pk parcel) > 0 then Some parcel
      else first_parcel_with_park T pk rest)"

text \<open>\<^verbatim>\<open>findBestEnvironmentalParcel\<close> of the newer component (the unnamed source file).\<close>

definition findBestEnvironmentalParcel :: "turf \<Rightarrow> map_state \<Rightarrow> feature option" where
  "findBestEnvironmentalParcel T s =
     (case userLocation s of None \<Rightarrow> None | Some u \<Rightarrow>
      (case environmentalData s of None \<Rightarrow> None | Some env \<Rightarrow>
       (case parks s of None \<Rightarrow> None | Some pk \<Rightarrow>
          first_parcel_with_park T pk (js_sort by_percentile_desc (withinBuffer T u 2 env)))))"

text \<open>
  \<^verbatim>\<open>findBestEnvironmentalParcel\<close> of \<^verbatim>\<open>src/Map.js\<close>: no look at the parks, and a \<^verbatim>\<open>reduce\<close>
  without initial value over the parcels in range.
\<close>

definition findBestEnvironmentalParcel_MapJs ::
  "turf \<Rightarrow> map_state \<Rightarrow> js_error + feature option" where
  "findBestEnvironmentalParcel_MapJs T s =
     (case userLocation s of None \<Rightarrow> Inr None | Some u \<Rightarrow>
      (case environmentalData s of None \<Rightarrow> Inr None | Some env \<Rightarrow>
         map_sum id Some
           (reduce (\<lambda>best current.
                      if js_gt (percentile (properties current)) (percentile (properties best))
                      then current else best)
              (withinBuffer T u 2 env))))"

text \<open>\<^verbatim>\<open>findBiggestParkOrTrail\<close>, the same text in both files.\<close>

definition findBiggestParkOrTrail ::
  "turf \<Rightarrow> map_state \<Rightarrow> feature \<Rightarrow> js_error + feature option" where
  "findBiggestParkOrTrail T s parcel =
     (case parks s of None \<Rightarrow> Inr None | Some pk \<Rightarrow>
      (case bikePaths s of None \<Rightarrow> Inr None | Some bp \<Rightarrow>
         (if length (parksInParcel T pk parcel) > 0
          then map_sum id Some
                 (reduce (\<lambda>biggest current.
                            if js_gt (acres (properties current)) (acres (properties biggest))
                            then current else biggest)
                    (parksInParcel T pk parcel))
          else (case trailsInParcel T bp parcel of
                  [] \<Rightarrow> Inr None
                | trail # _ \<Rightarrow> Inr (Some trail)))))"

definition placeholder_guide :: string where
  "placeholder_guide = ''Sorry, we couldn't generate a guide for this park at the moment.''"

text \<open>
  \<^verbatim>\<open>generateParkGuide\<close>. The prompt is built before the \<^verbatim>\<open>try\<close> block and calls
  \<^verbatim>\<open>parkInfo.acres.toFixed(2)\<close>, a TypeError when \<^verbatim>\<open>acres\<close> is \<^verbatim>\<open>undefined\<close>. Only the request
  is inside the \<^verbatim>\<open>try\<close>; its failure yields the placeholder.
\<close>

definition build_prompt :: "feature \<Rightarrow> js_error + prompt" where
  "build_prompt park =
     (case acres (properties park) of
        None \<Rightarrow> Inl TypeError
      | Some a \<Rightarrow> Inr (Prompt a (properties park)))"

definition generateParkGuide :: "services \<Rightarrow> feature \<Rightarrow> js_error + string" where
  "generateParkGuide S park =
     (case build_prompt park of
        Inl e \<Rightarrow> Inl e
      | Inr p \<Rightarrow>
          (case narrative S p of
             Inl e \<Rightarrow> Inr placeholder_guide
           | Inr content \<Rightarrow> Inr content))"

definition getRoute :: "services \<Rightarrow> position \<Rightarrow> position \<Rightarrow> geometry option" where
  "getRoute S start end =
     (case directions S start end of Inl e \<Rightarrow> None | Inr g \<Rightarrow> Some g)"

definition mark_selected :: "string \<Rightarrow> feature \<Rightarrow> feature" where
  "mark_selected parkId park =
     park\<lparr>properties :=
            (properties park)\<lparr>selected := Some (common_name (properties park) = Some parkId)\<rparr>\<rparr>"

text \<open>
  \<^verbatim>\<open>buildHealthyPlan\<close> of the newer component, as one step on the state. An exception leaves
  the asynchronous function before any setter has run.
\<close>

definition buildHealthyPlan :: "turf \<Rightarrow> services \<Rightarrow> map_state \<Rightarrow> js_error + map_state" where
  "buildHealthyPlan T S s =
     (case findBestEnvironmentalParcel T s of
        None \<Rightarrow> Inr s
      | Some bestParcel \<Rightarrow>
          (case findBiggestParkOrTrail T s bestParcel of
             Inl e \<Rightarrow> Inl e
           | Inr None \<Rightarrow> Inr s
           | Inr (Some bestLocation) \<Rightarrow>
               (case generateParkGuide S bestLocation of
                  Inl e \<Rightarrow> Inl e
                | Inr g \<Rightarrow>
                    (let s1 = (case userLocation s of None \<Rightarrow> s | Some u \<Rightarrow>
                                (case bikePathsContent s of None \<Rightarrow> s | Some c \<Rightarrow>
                                   s\<lparr>route := getRoute S u (center T (geometry bestLocation))\<rparr>));
                         s2 = s1\<lparr>healthyPlan := Some
                                 \<lparr>ptype = (if gtype (geometry bestLocation) = Polygon
                                            then Park else Trail),
                                  location = bestLocation,
                                  environmentalRating = percentile (properties bestParcel),
                                  guide = g\<rparr>\<rparr>
                     in Inr (case parks s of None \<Rightarrow> s2 | Some pk \<Rightarrow>
                              (case common_name (properties bestLocation) of
                                 None \<Rightarrow> s2
                               | Some parkId \<Rightarrow>
                                   (if parkId = [] then s2
                                    else s2\<lparr>selectedParkId := Some parkId,
                                            parks := Some (map (mark_selected parkId) pk)\<rparr>)))))))"

text \<open>\<^verbatim>\<open>buildHealthyPlan\<close> of \<^verbatim>\<open>src/Map.js\<close>: no route and no selection flag.\<close>

definition buildHealthyPlan_MapJs :: "turf \<Rightarrow> services \<Rightarrow> map_state \<Rightarrow> js_error + map_state" where
  "buildHealthyPlan_MapJs T S s =
     (case findBestEnvironmentalParcel_MapJs T s of
        Inl e \<Rightarrow> Inl e
      | Inr None \<Rightarrow> Inr s
      | Inr (Some bestParcel) \<Rightarrow>
          (case findBiggestParkOrTrail T s bestParcel of
             Inl e \<Rightarrow> Inl e
           | Inr None \<Rightarrow> Inr s
           | Inr (Some bestLocation) \<Rightarrow>
               (case generateParkGuide S bestLocation of
                  Inl e \<Rightarrow> Inl e
                | Inr g \<Rightarrow>
                    Inr (s\<lparr>healthyPlan := Some
                             \<lparr>ptype = (if gtype (geometry bestLocation) = Polygon
                                        then Park else Trail),
                              location = bestLocation,
                              environmentalRating = percentile (properties bestParcel),
                              guide = g\<rparr>\<rparr>))))"

section \<open>Runs of the component\<close>

definition initial_state :: map_state where
  "initial_state =
     \<lparr>environmentalData = None, bikePaths = None, parks = None, userLocation = None,
      healthyPlan = None, bikePathsContent = None, selectedParkId = None, route = None\<rparr>"

text \<open>
  The states the newer component can reach: the effects that run on mount and the button
  that builds a plan, in any order and any number of times, with any response of the
  services. \<open>bikePathsData\<close> is the bundled dataset. A plan is built in one step, from the
  state the button was pressed in; a run that raises changes nothing.
\<close>

inductive reachable :: "turf \<Rightarrow> feature list \<Rightarrow> map_state \<Rightarrow> bool"
  for T :: turf and bikePathsData :: "feature list" where
  mount: "reachable T bikePathsData initial_state"
| environmental: "reachable T bikePathsData s \<Longrightarrow>
     reachable T bikePathsData (fetchEnvironmentalData T response s)"
| bike_paths: "reachable T bikePathsData s \<Longrightarrow>
     reachable T bikePathsData (loadBikePaths bikePathsData s)"
| parks: "reachable T bikePathsData s \<Longrightarrow>
     reachable T bikePathsData (fetchParks T response' s)"
| bike_paths_content: "reachable T bikePathsData s \<Longrightarrow>
     reachable T bikePathsData (fetchBikePathsData response'' s)"
| location: "reachable T bikePathsData s \<Longrightarrow>
     reachable T bikePathsData (getUserLocation position s)"
| plan: "reachable T bikePathsData s \<Longrightarrow> buildHealthyPlan T S s = Inr s' \<Longrightarrow>
     reachable T bikePathsData s'"

code_pred reachable .

section \<open>A concrete geometry and concrete scenes\<close>

text \<open>
  One implementation of the library's interface, for evaluating the pipeline on concrete
  scenes: the centre of a geometry is the centre of its bounding box (as \<^verbatim>\<open>center\<close> computes
  it), a point is inside a polygon when it is inside its bounding box (exact on the
  axis-parallel rectangles used below), and the buffer is a square of half-side
  \<open>radius / 60\<close> degrees around the point. The scenes place the centres of the parcels on the
  user's position itself.
\<close>

definition bbox :: "geometry \<Rightarrow> real \<times> real \<times> real \<times> real" where
  "bbox g =
     (case concat (coordinates g) of
        [] \<Rightarrow> (0, 0, 0, 0)
      | (x, y) # ps \<Rightarrow>
          (foldl min x (map fst ps), foldl min y (map snd ps),
           foldl max x (map fst ps), foldl max y (map snd ps)))"

definition rectangle :: "real \<Rightarrow> real \<Rightarrow> real \<Rightarrow> real \<Rightarrow> geometry" where
  "rectangle west south east north =
     \<lparr>gtype = Polygon,
      coordinates = [[(west, south), (east, south), (east, north), (west, north), (west, south)]]\<rparr>"

definition bbox_turf :: turf where
  "bbox_turf =
     \<lparr>center = (\<lambda>g. case bbox g of (w, s, e, n) \<Rightarrow> ((w + e) / 2, (s + n) / 2)),
      buffer = (\<lambda>p radius. case p of (x, y) \<Rightarrow>
                  rectangle (x - radius / 60) (y - radius / 60) (x + radius / 60) (y + radius / 60)),
      booleanPointInPolygon = (\<lambda>p g. case p of (x, y) \<Rightarrow>
                  (case bbox g of (w, s, e, n) \<Rightarrow> w \<le> x \<and> x \<le> e \<and> s \<le> y \<and> y \<le> n))\<rparr>"

definition scene_user :: position where
  "scene_user = (-117.2, 32.7)"

definition scene_parcel :: "real \<Rightarrow> real option \<Rightarrow> string \<Rightarrow> feature" where
  "scene_parcel half score name =
     \<lparr>geometry = rectangle (-117.2 - half) (32.7 - half) (-117.2 + half) (32.7 + half),
      properties = \<lparr>percentile = score, acres = None, common_name = Some name, selected = None\<rparr>\<rparr>"

definition scene_park :: "real \<Rightarrow> real option \<Rightarrow> string \<Rightarrow> feature" where
  "scene_park lon area name =
     \<lparr>geometry = rectangle (lon - 0.001) 32.699 (lon + 0.001) 32.701,
      properties = \<lparr>percentile = None, acres = area, common_name = Some name, selected = None\<rparr>\<rparr>"

definition scene_trail :: "real \<Rightarrow> real \<Rightarrow> string \<Rightarrow> feature" where
  "scene_trail lon lat name =
     \<lparr>geometry = \<lparr>gtype = LineString,
                   coordinates = [[(lon - 0.005, lat - 0.005), (lon + 0.005, lat + 0.005)]]\<rparr>,
      properties = \<lparr>percentile = None, acres = None, common_name = Some name, selected = None\<rparr>\<rparr>"

definition scene :: "feature list \<Rightarrow> feature list \<Rightarrow> feature list \<Rightarrow> map_state" where
  "scene env pk bp =
     initial_state\<lparr>environmentalData := Some env, bikePaths := Some bp, parks := Some pk,
                   userLocation := Some scene_user\<rparr>"

definition offline :: services where
  "offline = \<lparr>narrative = (\<lambda>p. Inl NetworkError), directions = (\<lambda>a b. Inl NetworkError)\<rparr>"

text \<open>The cast of the scenes.\<close>

definition parcel_A :: feature where
  "parcel_A = scene_parcel 0.01 (Some 0.9) ''A''"

definition parcel_B :: feature where
  "parcel_B = scene_parcel 0.02 (Some 0.7) ''B''"

definition parcel_C :: feature where
  "parcel_C = scene_parcel 0.03 (Some 0.7) ''C''"

definition parcel_N :: feature where
  "parcel_N = scene_parcel 0.04 None ''N''"

definition parcel_D :: feature where
  "parcel_D = scene_parcel 0.05 (Some 0.9) ''D''"

definition parcel_wide :: feature where
  "parcel_wide = scene_parcel 2 (Some 0.5) ''W''"

definition parcel_far :: feature where
  "parcel_far =
     \<lparr>geometry = rectangle (-117) 33 (-116.9) 33.1,
      properties = \<lparr>percentile = Some 0.8, acres = None, common_name = Some ''F'', selected = None\<rparr>\<rparr>"

definition park_P :: feature where
  "park_P = scene_park (-117.185) (Some 5) ''P''"

definition park_S :: feature where
  "park_S = scene_park (-117.215) (Some 3.2) ''S''"

definition park_L :: feature where
  "park_L = scene_park (-117.216) (Some 7.8) ''L''"

definition park_M :: feature where
  "park_M = scene_park (-117.184) (Some 7.8) ''M''"

definition park_U :: feature where
  "park_U = scene_park (-117.214) None ''U''"

definition trail_T :: feature where
  "trail_T = scene_trail (-117.2) 32.7 ''T''"

definition trail_V :: feature where
  "trail_V = scene_trail (-117.185) 32.715 ''V''"

definition trail_far :: feature where
  "trail_far = scene_trail (-118.25) 34.05 ''LA''"

section \<open>Facts about the JavaScript primitives\<close>

lemma js_gt_simps [simp]:
  "js_gt None b = False" "js_gt a None = False" "js_gt (Some x) (Some y) = (x > y)"
  by (auto simp: js_gt_def split: option.splits)

lemma foldl_first_max:
  fixes key :: "'a \<Rightarrow> real option"
  shows "foldl (\<lambda>best current. if js_gt (key current) (key best) then current else best) x xs = r \<Longrightarrow>
     r \<in> set (x # xs) \<and> (key x = None \<longrightarrow> r = x) \<and> (key x \<noteq> None \<longrightarrow> key r \<noteq> None) \<and>
     (\<forall>q\<in>set (x # xs). \<not> js_gt (key q) (key r)) \<and>
     find (\<lambda>q. key q = key r) (x # xs) = Some r"
proof (induction xs arbitrary: x)
  case Nil
  then show ?case by (cases "key x") auto
next
  case (Cons y ys)
  show ?case
  proof (cases "js_gt (key y) (key x)")
    case True
    then obtain a b where ab: "key y = Some a" "key x = Some b" "b < a"
      by (cases "key y"; cases "key x") auto
    from Cons.prems True have "foldl (\<lambda>best current. if js_gt (key current) (key best) then current else best) y ys = r"
      by simp
    from Cons.IH[OF this] ab show ?thesis
      by (cases "key r") (auto split: if_splits)
  next
    case False
    from Cons.prems False have "foldl (\<lambda>best current. if js_gt (key current) (key best) then current else best) x ys = r"
      by simp
    from Cons.IH[OF this]
    have ih: "r \<in> set (x # ys)" "key x = None \<longrightarrow> r = x" "key x \<noteq> None \<longrightarrow> key r \<noteq> None"
      "\<forall>q\<in>set (x # ys). \<not> js_gt (key q) (key r)" "find (\<lambda>q. key q = key r) (x # ys) = Some r"
      by blast+
    have xr: "\<not> js_gt (key x) (key r)" using ih(4) by simp
    have yr: "\<not> js_gt (key y) (key r)"
    proof (cases "key x")
      case None
      with ih(2) False show ?thesis by simp
    next
      case (Some b)
      with ih(3) obtain c where "key r = Some c" by auto
      with Some xr False show ?thesis by (cases "key y") auto
    qed
    have "find (\<lambda>q. key q = key r) (x # y # ys) = Some r"
    proof (cases "key x = key r")
      case True
      with ih(5) show ?thesis by simp
    next
      case neq: False
      with ih(5) have fys: "find (\<lambda>q. key q = key r) ys = Some r" by simp
      have "key y \<noteq> key r"
      proof
        assume eq: "key y = key r"
        from neq ih(2) obtain b where b: "key x = Some b" by (cases "key x") auto
        with ih(3) obtain c where c: "key r = Some c" by auto
        from b c xr neq have "b < c" by auto
        with b c eq False show False by simp
      qed
      with neq fys show ?thesis by simp
    qed
    moreover have "r \<in> set (x # y # ys)" using ih(1) by auto
    moreover have "\<forall>q\<in>set (x # y # ys). \<not> js_gt (key q) (key r)" using ih(4) yr by simp
    ultimately show ?thesis using ih(2,3) by blast
  qed
qed

lemma set_sort_insert: "set (sort_insert c x ys) = insert x (set ys)"
  by (induction ys) auto

lemma set_js_sort: "set (js_sort c xs) = set xs"
  by (induction xs) (auto simp: set_sort_insert)

text \<open>
  On parcels that all carry a percentile the comparator is consistent, and the ranking is
  the stable sort by descending percentile.
\<close>

lemma sort_insert_numeric:
  "percentile (properties x) \<noteq> None \<Longrightarrow> \<forall>p\<in>set ys. percentile (properties p) \<noteq> None \<Longrightarrow>
   sort_insert by_percentile_desc x ys = insort_key (\<lambda>p. - the (percentile (properties p))) x ys"
  by (induction ys) (auto simp: SortCompare_def by_percentile_desc_def js_minus_def)

lemma js_sort_numeric:
  "\<forall>p\<in>set xs. percentile (properties p) \<noteq> None \<Longrightarrow>
   js_sort by_percentile_desc xs = sort_key (\<lambda>p. - the (percentile (properties p))) xs"
  by (induction xs) (simp_all add: sort_insert_numeric set_js_sort)

lemma find_filter: "find P xs = (case filter P xs of [] \<Rightarrow> None | y # _ \<Rightarrow> Some y)"
  by (induction xs) auto

lemma sort_key_head:
  assumes "sort_key f ys = z # zs"
  shows "z \<in> set ys" and "\<forall>y\<in>set ys. f z \<le> f y" and "find (\<lambda>y. f y = f z) ys = Some z"
proof -
  have "set (sort_key f ys) = set ys" by simp
  with assms show "z \<in> set ys" by auto
  have "sorted (map f (sort_key f ys))" by (rule sorted_sort_key)
  with assms have "\<forall>y\<in>set zs. f z \<le> f y" by simp
  moreover have "set ys = insert z (set zs)" using assms set_sort[of f ys] by simp
  ultimately show "\<forall>y\<in>set ys. f z \<le> f y" by auto
  have "filter (\<lambda>y. f y = f z) (sort_key f ys) = filter (\<lambda>y. f y = f z) ys"
    by (rule sort_key_stable)
  with assms have "filter (\<lambda>y. f y = f z) ys = z # filter (\<lambda>y. f y = f z) zs" by simp
  then show "find (\<lambda>y. f y = f z) ys = Some z" by (simp add: find_filter)
qed

lemma first_parcel_with_park_find:
  "first_parcel_with_park T pk ps = find (\<lambda>parcel. parksInParcel T pk parcel \<noteq> []) ps"
  by (induction ps) auto

section \<open>Facts about the concrete geometry\<close>

lemma isWithinSanDiego_iff:
  "isWithinSanDiego (lon, lat) \<longleftrightarrow> -117.6 \<le> lon \<and> lon \<le> -116.1 \<and> 32.5 \<le> lat \<and> lat \<le> 33.5"
  by (auto simp: isWithinSanDiego_def SD_BOUNDS_def)

lemma bbox_rectangle:
  "w \<le> e \<Longrightarrow> s \<le> n \<Longrightarrow> bbox (rectangle w s e n) = (w, s, e, n)"
  by (simp add: bbox_def rectangle_def min_def max_def)

lemma center_rectangle:
  "w \<le> e \<Longrightarrow> s \<le> n \<Longrightarrow> center bbox_turf (rectangle w s e n) = ((w + e) / 2, (s + n) / 2)"
  by (simp add: bbox_turf_def bbox_rectangle)

lemma inside_rectangle:
  "w \<le> e \<Longrightarrow> s \<le> n \<Longrightarrow>
   booleanPointInPolygon bbox_turf (x, y) (rectangle w s e n) \<longleftrightarrow> w \<le> x \<and> x \<le> e \<and> s \<le> y \<and> y \<le> n"
  by (simp add: bbox_turf_def bbox_rectangle)

lemma buffer_bbox_turf:
  "buffer bbox_turf (x, y) r = rectangle (x - r / 60) (y - r / 60) (x + r / 60) (y + r / 60)"
  by (simp add: bbox_turf_def)

lemma center_scene_parcel:
  "0 \<le> h \<Longrightarrow> center bbox_turf (geometry (scene_parcel h sc nm)) = (-117.2, 32.7)"
  by (simp add: scene_parcel_def center_rectangle)

lemma center_scene_park:
  "center bbox_turf (geometry (scene_park lon a nm)) = (lon, 32.7)"
  by (simp add: scene_park_def center_rectangle)

lemma center_scene_trail:
  "center bbox_turf (geometry (scene_trail lon lat nm)) = (lon, lat)"
  by (simp add: scene_trail_def bbox_turf_def bbox_def min_def max_def)

lemma inside_scene_parcel:
  "0 \<le> h \<Longrightarrow> booleanPointInPolygon bbox_turf (x, y) (geometry (scene_parcel h sc nm)) \<longleftrightarrow>
     -117.2 - h \<le> x \<and> x \<le> -117.2 + h \<and> 32.7 - h \<le> y \<and> y \<le> 32.7 + h"
  by (simp add: scene_parcel_def inside_rectangle)

lemma buffer_scene_user:
  "buffer bbox_turf scene_user r = rectangle (-117.2 - r / 60) (32.7 - r / 60) (-117.2 + r / 60) (32.7 + r / 60)"
  by (simp add: scene_user_def bbox_turf_def)

lemma inside_scene_buffer:
  "booleanPointInPolygon bbox_turf (x, y) (buffer bbox_turf scene_user 2) \<longleftrightarrow>
     -117.2 - 1 / 30 \<le> x \<and> x \<le> -117.2 + 1 / 30 \<and> 32.7 - 1 / 30 \<le> y \<and> y \<le> 32.7 + 1 / 30"
  by (simp add: buffer_scene_user inside_rectangle)

lemma percentile_scene_parcel: "percentile (properties (scene_parcel h sc nm)) = sc"
  by (simp add: scene_parcel_def)

lemma acres_scene_park: "acres (properties (scene_park lon a nm)) = a"
  by (simp add: scene_park_def)

lemmas scene_simps = center_scene_parcel center_scene_park center_scene_trail inside_scene_parcel
  inside_scene_buffer percentile_scene_parcel acres_scene_park

lemmas cast_defs = parcel_A_def parcel_B_def parcel_C_def parcel_N_def parcel_wide_def
  park_P_def park_S_def park_L_def park_M_def park_U_def trail_T_def trail_V_def trail_far_def

lemma scene_fields:
  "userLocation (scene env pk bp) = Some scene_user"
  "environmentalData (scene env pk bp) = Some env"
  "parks (scene env pk bp) = Some pk"
  "bikePaths (scene env pk bp) = Some bp"
  "healthyPlan (scene env pk bp) = None"
  "bikePathsContent (scene env pk bp) = None"
  by (simp_all add: scene_def initial_state_def)

lemma center_parcel_far: "center bbox_turf (geometry parcel_far) = (-116.95, 33.05)"
  by (simp add: parcel_far_def center_rectangle)

lemma in_range_cast:
  "booleanPointInPolygon bbox_turf (center bbox_turf (geometry parcel_A)) (buffer bbox_turf scene_user 2)"
  "booleanPointInPolygon bbox_turf (center bbox_turf (geometry parcel_B)) (buffer bbox_turf scene_user 2)"
  "booleanPointInPolygon bbox_turf (center bbox_turf (geometry parcel_C)) (buffer bbox_turf scene_user 2)"
  "booleanPointInPolygon bbox_turf (center bbox_turf (geometry parcel_N)) (buffer bbox_turf scene_user 2)"
  "booleanPointInPolygon bbox_turf (center bbox_turf (geometry parcel_wide)) (buffer bbox_turf scene_user 2)"
  "\<not> booleanPointInPolygon bbox_turf (center bbox_turf (geometry parcel_far)) (buffer bbox_turf scene_user 2)"
  by (simp_all add: cast_defs scene_simps center_parcel_far)

lemma inside_parcel_A:
  "\<not> booleanPointInPolygon bbox_turf (center bbox_turf (geometry park_P)) (geometry parcel_A)"
  "\<not> booleanPointInPolygon bbox_turf (center bbox_turf (geometry park_S)) (geometry parcel_A)"
  "\<not> booleanPointInPolygon bbox_turf (center bbox_turf (geometry park_L)) (geometry parcel_A)"
  "\<not> booleanPointInPolygon bbox_turf (center bbox_turf (geometry park_M)) (geometry parcel_A)"
  "\<not> booleanPointInPolygon bbox_turf (center bbox_turf (geometry park_U)) (geometry parcel_A)"
  "booleanPointInPolygon bbox_turf (center bbox_turf (geometry trail_T)) (geometry parcel_A)"
  "\<not> booleanPointInPolygon bbox_turf (center bbox_turf (geometry trail_V)) (geometry parcel_A)"
  "\<not> booleanPointInPolygon bbox_turf (center bbox_turf (geometry trail_far)) (geometry parcel_A)"
  by (simp_all add: cast_defs scene_simps)

lemma inside_parcel_B:
  "booleanPointInPolygon bbox_turf (center bbox_turf (geometry park_P)) (geometry parcel_B)"
  "booleanPointInPolygon bbox_turf (center bbox_turf (geometry park_S)) (geometry parcel_B)"
  "booleanPointInPolygon bbox_turf (center bbox_turf (geometry park_L)) (geometry parcel_B)"
  "booleanPointInPolygon bbox_turf (center bbox_turf (geometry park_M)) (geometry parcel_B)"
  "booleanPointInPolygon bbox_turf (center bbox_turf (geometry park_U)) (geometry parcel_B)"
  "booleanPointInPolygon bbox_turf (center bbox_turf (geometry trail_T)) (geometry parcel_B)"
  "booleanPointInPolygon bbox_turf (center bbox_turf (geometry trail_V)) (geometry parcel_B)"
  "\<not> booleanPointInPolygon bbox_turf (center bbox_turf (geometry trail_far)) (geometry parcel_B)"
  by (simp_all add: cast_defs scene_simps)

lemma inside_parcel_C:
  "booleanPointInPolygon bbox_turf (center bbox_turf (geometry park_P)) (geometry parcel_C)"
  "booleanPointInPolygon bbox_turf (center bbox_turf (geometry trail_T)) (geometry parcel_C)"
  by (simp_all add: cast_defs scene_simps)

lemma inside_parcel_N:
  "booleanPointInPolygon bbox_turf (center bbox_turf (geometry park_P)) (geometry parcel_N)"
  by (simp_all add: cast_defs scene_simps)

lemma parcel_D_geometry:
  "booleanPointInPolygon bbox_turf (center bbox_turf (geometry parcel_D)) (buffer bbox_turf scene_user 2)"
  "booleanPointInPolygon bbox_turf (center bbox_turf (geometry park_P)) (geometry parcel_D)"
  by (simp_all add: cast_defs parcel_D_def scene_simps)

lemma parcel_D_attributes:
  "percentile (properties parcel_D) = Some 0.9"
  "parcel_D \<noteq> parcel_A" "parcel_A \<noteq> parcel_D" "parcel_D \<noteq> parcel_N" "parcel_N \<noteq> parcel_D"
  "parcel_N \<noteq> parcel_C" "parcel_C \<noteq> parcel_N"
  "park_U \<noteq> park_L" "park_L \<noteq> park_U"
  by (simp_all add: cast_defs parcel_D_def scene_parcel_def scene_park_def rectangle_def)

lemmas parcel_D_facts = parcel_D_geometry parcel_D_attributes

lemma inside_parcel_wide:
  "booleanPointInPolygon bbox_turf (center bbox_turf (geometry trail_far)) (geometry parcel_wide)"
  by (simp_all add: cast_defs scene_simps)

lemma cast_attributes:
  "percentile (properties parcel_A) = Some 0.9"
  "percentile (properties parcel_B) = Some 0.7"
  "percentile (properties parcel_C) = Some 0.7"
  "percentile (properties parcel_N) = None"
  "percentile (properties parcel_wide) = Some 0.5"
  "acres (properties park_P) = Some 5"
  "acres (properties park_S) = Some 3.2"
  "acres (properties park_L) = Some 7.8"
  "acres (properties park_M) = Some 7.8"
  "acres (properties park_U) = None"
  "acres (properties trail_T) = None"
  "gtype (geometry park_P) = Polygon"
  "gtype (geometry trail_T) = LineString"
  "common_name (properties park_P) = Some ''P''"
  by (simp_all add: cast_defs scene_parcel_def scene_park_def scene_trail_def rectangle_def)

lemma cast_distinct:
  "parcel_A \<noteq> parcel_B" "parcel_B \<noteq> parcel_A" "parcel_B \<noteq> parcel_C" "parcel_C \<noteq> parcel_B"
  "parcel_A \<noteq> parcel_C" "parcel_C \<noteq> parcel_A" "parcel_N \<noteq> parcel_A" "parcel_A \<noteq> parcel_N"
  "parcel_N \<noteq> parcel_B" "parcel_B \<noteq> parcel_N"
  "park_P \<noteq> park_U" "park_U \<noteq> park_P" "park_L \<noteq> park_M" "park_M \<noteq> park_L"
  "park_S \<noteq> park_L" "park_L \<noteq> park_S" "park_S \<noteq> park_M" "park_M \<noteq> park_S"
  "park_P \<noteq> trail_T" "trail_T \<noteq> park_P" "trail_T \<noteq> trail_V" "trail_V \<noteq> trail_T"
  by (simp_all add: cast_defs scene_parcel_def scene_park_def scene_trail_def rectangle_def)

lemma isWithinSanDiego_cast:
  "isWithinSanDiego (center bbox_turf (geometry parcel_A))"
  "isWithinSanDiego (center bbox_turf (geometry parcel_B))"
  "isWithinSanDiego (center bbox_turf (geometry parcel_wide))"
  "isWithinSanDiego (center bbox_turf (geometry parcel_far))"
  "isWithinSanDiego (center bbox_turf (geometry park_P))"
  "\<not> isWithinSanDiego (center bbox_turf (geometry trail_far))"
  by (simp_all add: cast_defs scene_simps center_parcel_far isWithinSanDiego_iff)

section \<open>Facts about the pipeline\<close>

lemma findBest_unfold:
  assumes "userLocation s = Some u" "environmentalData s = Some env" "parks s = Some pk"
  shows "findBestEnvironmentalParcel T s =
     find (\<lambda>parcel. parksInParcel T pk parcel \<noteq> []) (js_sort by_percentile_desc (withinBuffer T u 2 env))"
  using assms by (simp add: findBestEnvironmentalParcel_def first_parcel_with_park_find)

lemma findBest_None_iff:
  assumes "userLocation s = Some u" "environmentalData s = Some env" "parks s = Some pk"
  shows "findBestEnvironmentalParcel T s = None \<longleftrightarrow>
     (\<forall>p\<in>set (withinBuffer T u 2 env). parksInParcel T pk p = [])"
  by (auto simp: findBest_unfold[OF assms] find_None_iff set_js_sort)

lemma findBest_Some_park:
  assumes "findBestEnvironmentalParcel T s = Some r"
  shows "\<exists>u env pk. userLocation s = Some u \<and> environmentalData s = Some env \<and> parks s = Some pk \<and>
      r \<in> set (withinBuffer T u 2 env) \<and> parksInParcel T pk r \<noteq> []"
proof -
  from assms obtain u env pk where l: "userLocation s = Some u" "environmentalData s = Some env" "parks s = Some pk"
    by (auto simp: findBestEnvironmentalParcel_def split: option.splits)
  from assms have "find (\<lambda>parcel. parksInParcel T pk parcel \<noteq> []) (js_sort by_percentile_desc (withinBuffer T u 2 env)) = Some r"
    by (simp add: findBest_unfold[OF l])
  then have "r \<in> set (js_sort by_percentile_desc (withinBuffer T u 2 env)) \<and> parksInParcel T pk r \<noteq> []"
    by (auto simp: find_Some_iff)
  with l show ?thesis by (simp add: set_js_sort)
qed

lemma ranked_first:
  assumes num: "\<forall>p\<in>set R. percentile (properties p) \<noteq> None"
      and f: "find Q (js_sort by_percentile_desc R) = Some r"
  shows "r \<in> set R" and "Q r"
    and "\<forall>q\<in>set R. Q q \<longrightarrow> the (percentile (properties q)) \<le> the (percentile (properties r))"
    and "find (\<lambda>q. percentile (properties q) = percentile (properties r)) (filter Q R) = Some r"
proof -
  let ?f = "\<lambda>p. - the (percentile (properties p))"
  from f have "find Q (sort_key ?f R) = Some r" by (simp add: js_sort_numeric[OF num])
  then obtain zs where "filter Q (sort_key ?f R) = r # zs"
    by (auto simp: find_filter split: list.splits)
  then have hd: "sort_key ?f (filter Q R) = r # zs" by (simp add: filter_sort)
  from sort_key_head(1)[OF hd] show "r \<in> set R" and "Q r" by auto
  from sort_key_head(2)[OF hd]
  show "\<forall>q\<in>set R. Q q \<longrightarrow> the (percentile (properties q)) \<le> the (percentile (properties r))"
    by auto
  have "find (\<lambda>q. percentile (properties q) = percentile (properties r)) (filter Q R)
      = find (\<lambda>y. ?f y = ?f r) (filter Q R)"
  proof (rule find_cong[OF refl])
    fix q assume "q \<in> set (filter Q R)"
    with num \<open>r \<in> set R\<close> obtain a b where "percentile (properties q) = Some a" "percentile (properties r) = Some b"
      by fastforce
    then show "(percentile (properties q) = percentile (properties r)) = (?f q = ?f r)" by simp
  qed
  with sort_key_head(3)[OF hd]
  show "find (\<lambda>q. percentile (properties q) = percentile (properties r)) (filter Q R) = Some r" by simp
qed

lemma ranking_keeps_ties:
  assumes num: "\<forall>p\<in>set R. percentile (properties p) \<noteq> None"
  shows "filter (\<lambda>p. percentile (properties p) = k) (js_sort by_percentile_desc R) =
         filter (\<lambda>p. percentile (properties p) = k) R"
proof (cases k)
  case None
  with num show ?thesis by (simp add: set_js_sort)
next
  case (Some v)
  let ?f = "\<lambda>p. - the (percentile (properties p))"
  have eq: "\<And>xs. set xs = set R \<Longrightarrow>
      filter (\<lambda>p. percentile (properties p) = k) xs = filter (\<lambda>p. ?f p = - v) xs"
  proof -
    fix xs :: "feature list" assume s: "set xs = set R"
    show "filter (\<lambda>p. percentile (properties p) = k) xs = filter (\<lambda>p. ?f p = - v) xs"
    proof (rule filter_cong[OF refl])
      fix p assume "p \<in> set xs"
      with s num obtain a where "percentile (properties p) = Some a" by fastforce
      with Some show "(percentile (properties p) = k) = (?f p = - v)" by simp
    qed
  qed
  have "filter (\<lambda>p. percentile (properties p) = k) (js_sort by_percentile_desc R)
      = filter (\<lambda>p. ?f p = - v) (sort_key ?f R)"
    using eq[of "js_sort by_percentile_desc R"] by (simp add: set_js_sort js_sort_numeric[OF num])
  also have "\<dots> = filter (\<lambda>p. ?f p = - v) R" by (rule sort_key_stable)
  also have "\<dots> = filter (\<lambda>p. percentile (properties p) = k) R" using eq[of R] by simp
  finally show ?thesis .
qed

lemma findBest_MapJs_unfold:
  assumes "userLocation s = Some u" "environmentalData s = Some env"
  shows "findBestEnvironmentalParcel_MapJs T s =
     map_sum id Some
       (reduce (\<lambda>best current.
                  if js_gt (percentile (properties current)) (percentile (properties best))
                  then current else best)
          (withinBuffer T u 2 env))"
  using assms by (simp add: findBestEnvironmentalParcel_MapJs_def)

lemma findBiggest_parks:
  assumes "parks s = Some pk" "bikePaths s = Some bp" "parksInParcel T pk parcel = q0 # qs"
  shows "findBiggestParkOrTrail T s parcel =
     Inr (Some (foldl (\<lambda>biggest current.
                         if js_gt (acres (properties current)) (acres (properties biggest))
                         then current else biggest) q0 qs))"
  using assms by (simp add: findBiggestParkOrTrail_def)

lemma findBiggest_trails:
  assumes "parks s = Some pk" "bikePaths s = Some bp" "parksInParcel T pk parcel = []"
  shows "findBiggestParkOrTrail T s parcel =
     Inr (find (\<lambda>trail. booleanPointInPolygon T (center T (geometry trail)) (geometry parcel)) bp)"
  using assms
  by (simp add: findBiggestParkOrTrail_def find_filter trailsInParcel_def split: list.splits)

lemma findBiggest_never_raises: "findBiggestParkOrTrail T s parcel \<noteq> Inl e"
  by (cases "parksInParcel T (the (parks s)) parcel")
     (auto simp: findBiggestParkOrTrail_def split: option.splits list.splits)

lemma generateParkGuide_acres:
  "acres (properties park) = Some a \<Longrightarrow> \<exists>g. generateParkGuide S park = Inr g"
  by (simp add: generateParkGuide_def build_prompt_def split: sum.splits)

lemma generateParkGuide_no_acres:
  "acres (properties park) = None \<Longrightarrow> generateParkGuide S park = Inl TypeError"
  by (simp add: generateParkGuide_def build_prompt_def)

lemma buildHealthyPlan_guide:
  assumes "findBestEnvironmentalParcel T s = Some bestParcel"
      and "findBiggestParkOrTrail T s bestParcel = Inr (Some bestLocation)"
      and "generateParkGuide S bestLocation = Inr g"
  shows "\<exists>s'. buildHealthyPlan T S s = Inr s' \<and>
           healthyPlan s' = Some \<lparr>ptype = (if gtype (geometry bestLocation) = Polygon then Park else Trail),
                                  location = bestLocation,
                                  environmentalRating = percentile (properties bestParcel),
                                  guide = g\<rparr>"
  using assms
  by (simp add: buildHealthyPlan_def Let_def split: option.splits)

lemma MapJs_raises_when_none_in_range:
  assumes "userLocation s = Some u" and "environmentalData s = Some env"
      and "withinBuffer T u 2 env = []"
  shows "findBestEnvironmentalParcel_MapJs T s = Inl TypeError"
    and "buildHealthyPlan_MapJs T S s = Inl TypeError"
  using assms by (simp_all add: buildHealthyPlan_MapJs_def findBestEnvironmentalParcel_MapJs_def)

lemma newer_component_when_none_in_range:
  assumes "userLocation s = Some u" and "environmentalData s = Some env"
      and "withinBuffer T u 2 env = []"
  shows "findBestEnvironmentalParcel T s = None" and "buildHealthyPlan T S s = Inr s"
  using assms
  by (simp_all add: buildHealthyPlan_def findBestEnvironmentalParcel_def split: option.splits)

lemmas plan_eval = findBestEnvironmentalParcel_def findBestEnvironmentalParcel_MapJs_def
  findBiggestParkOrTrail_def scene_fields withinBuffer_def parksInParcel_def trailsInParcel_def
  in_range_cast
  inside_parcel_A inside_parcel_B inside_parcel_C inside_parcel_N parcel_D_facts cast_attributes
  cast_distinct SortCompare_def by_percentile_desc_def js_minus_def

section \<open>Facts about the runs\<close>

lemma geometry_mark_selected [simp]: "geometry (mark_selected parkId park) = geometry park"
  by (simp add: mark_selected_def)

lemma buildHealthyPlan_frame:
  assumes "buildHealthyPlan T S s = Inr s'"
  shows "environmentalData s' = environmentalData s"
    and "bikePaths s' = bikePaths s"
    and "parks s' = parks s \<or>
         (\<exists>parkId pk. parks s = Some pk \<and> parks s' = Some (map (mark_selected parkId) pk))"
    and "healthyPlan s' = healthyPlan s \<or>
         (\<exists>bestParcel dest g.
            findBestEnvironmentalParcel T s = Some bestParcel \<and>
            findBiggestParkOrTrail T s bestParcel = Inr (Some dest) \<and>
            healthyPlan s' = Some \<lparr>ptype = (if gtype (geometry dest) = Polygon then Park else Trail),
                                   location = dest,
                                   environmentalRating = percentile (properties bestParcel),
                                   guide = g\<rparr>)"
proof -
  show "environmentalData s' = environmentalData s"
    using assms
    by (auto simp: buildHealthyPlan_def Let_def split: option.splits sum.splits if_splits)
  show "bikePaths s' = bikePaths s"
    using assms
    by (auto simp: buildHealthyPlan_def Let_def split: option.splits sum.splits if_splits)
  show "parks s' = parks s \<or>
         (\<exists>parkId pk. parks s = Some pk \<and> parks s' = Some (map (mark_selected parkId) pk))"
    using assms
    by (auto simp: buildHealthyPlan_def Let_def split: option.splits sum.splits if_splits)
  show "healthyPlan s' = healthyPlan s \<or>
         (\<exists>bestParcel dest g.
            findBestEnvironmentalParcel T s = Some bestParcel \<and>
            findBiggestParkOrTrail T s bestParcel = Inr (Some dest) \<and>
            healthyPlan s' = Some \<lparr>ptype = (if gtype (geometry dest) = Polygon then Park else Trail),
                                   location = dest,
                                   environmentalRating = percentile (properties bestParcel),
                                   guide = g\<rparr>)"
    using assms
    by (auto simp: buildHealthyPlan_def Let_def split: option.splits sum.splits if_splits)
qed

lemma destination_is_park:
  assumes b: "findBestEnvironmentalParcel T s = Some bestParcel"
  shows "\<exists>pk. parks s = Some pk \<and> parksInParcel T pk bestParcel \<noteq> [] \<and>
           (\<forall>dest. findBiggestParkOrTrail T s bestParcel = Inr (Some dest) \<longrightarrow>
                dest \<in> set (parksInParcel T pk bestParcel))"
proof -
  from findBest_Some_park[OF b] obtain pk where pk: "parks s = Some pk"
    and ne: "parksInParcel T pk bestParcel \<noteq> []" by blast
  from ne obtain q0 qs where qs: "parksInParcel T pk bestParcel = q0 # qs"
    by (cases "parksInParcel T pk bestParcel") auto
  have "\<forall>dest. findBiggestParkOrTrail T s bestParcel = Inr (Some dest) \<longrightarrow>
                dest \<in> set (parksInParcel T pk bestParcel)"
  proof (intro allI impI)
    fix dest assume d: "findBiggestParkOrTrail T s bestParcel = Inr (Some dest)"
    then obtain bp where bp: "bikePaths s = Some bp"
      using pk by (cases "bikePaths s") (auto simp: findBiggestParkOrTrail_def)
    from d findBiggest_parks[OF pk bp qs]
    have "foldl (\<lambda>biggest current.
        if js_gt (acres (properties current)) (acres (properties biggest))
        then current else biggest) q0 qs = dest" by simp
    from foldl_first_max[where key="\<lambda>q. acres (properties q)", OF this] qs
    show "dest \<in> set (parksInParcel T pk bestParcel)" by simp
  qed
  with pk ne show ?thesis by blast
qed

lemma reachable_invariant:
  assumes "reachable T D s"
  shows "(\<forall>pk. parks s = Some pk \<longrightarrow>
            (\<forall>p\<in>set pk. gtype (geometry p) = Polygon \<and> isWithinSanDiego (center T (geometry p))))
       \<and> (\<forall>fs. environmentalData s = Some fs \<longrightarrow>
            (\<forall>f\<in>set fs. isWithinSanDiego (center T (geometry f))))
       \<and> (bikePaths s = None \<or> bikePaths s = Some D)
       \<and> (\<forall>pl. healthyPlan s = Some pl \<longrightarrow>
            ptype pl = Park \<and> gtype (geometry (location pl)) = Polygon)"
  using assms
proof (induction rule: reachable.induct)
  case mount
  show ?case by (simp add: initial_state_def)
next
  case (environmental s response)
  then show ?case by (cases response) (auto simp: fetchEnvironmentalData_def)
next
  case (bike_paths s)
  then show ?case by (auto simp: loadBikePaths_def)
next
  case (parks s response')
  then show ?case by (cases response') (auto simp: fetchParks_def)
next
  case (bike_paths_content s response'')
  then show ?case by (cases response'') (auto simp: fetchBikePathsData_def)
next
  case (location s position)
  then show ?case by (cases position) (auto simp: getUserLocation_def)
next
  case (plan s S s')
  note fr = buildHealthyPlan_frame[OF plan.hyps(2)]
  from plan.IH have ipk: "\<forall>pk. parks s = Some pk \<longrightarrow>
            (\<forall>p\<in>set pk. gtype (geometry p) = Polygon \<and> isWithinSanDiego (center T (geometry p)))"
    and ienv: "\<forall>fs. environmentalData s = Some fs \<longrightarrow>
            (\<forall>f\<in>set fs. isWithinSanDiego (center T (geometry f)))"
    and ibp: "bikePaths s = None \<or> bikePaths s = Some D"
    and ipl: "\<forall>pl. healthyPlan s = Some pl \<longrightarrow>
            ptype pl = Park \<and> gtype (geometry (location pl)) = Polygon"
    by blast+
  have 1: "\<forall>pk. parks s' = Some pk \<longrightarrow>
            (\<forall>p\<in>set pk. gtype (geometry p) = Polygon \<and> isWithinSanDiego (center T (geometry p)))"
    using fr(3) ipk by auto
  have 2: "\<forall>fs. environmentalData s' = Some fs \<longrightarrow>
            (\<forall>f\<in>set fs. isWithinSanDiego (center T (geometry f)))"
    using fr(1) ienv by simp
  have 3: "bikePaths s' = None \<or> bikePaths s' = Some D"
    using fr(2) ibp by simp
  have 4: "\<forall>pl. healthyPlan s' = Some pl \<longrightarrow>
            ptype pl = Park \<and> gtype (geometry (location pl)) = Polygon"
  proof (intro allI impI)
    fix pl assume pl: "healthyPlan s' = Some pl"
    from fr(4) show "ptype pl = Park \<and> gtype (geometry (location pl)) = Polygon"
    proof
      assume "healthyPlan s' = healthyPlan s"
      with pl ipl show ?thesis by simp
    next
      assume "\<exists>bestParcel dest g.
            findBestEnvironmentalParcel T s = Some bestParcel \<and>
            findBiggestParkOrTrail T s bestParcel = Inr (Some dest) \<and>
            healthyPlan s' = Some \<lparr>ptype = (if gtype (geometry dest) = Polygon then Park else Trail),
                                   location = dest,
                                   environmentalRating = percentile (properties bestParcel),
                                   guide = g\<rparr>"
      then obtain bestParcel dest g where b: "findBestEnvironmentalParcel T s = Some bestParcel"
        and d: "findBiggestParkOrTrail T s bestParcel = Inr (Some dest)"
        and h: "healthyPlan s' = Some \<lparr>ptype = (if gtype (geometry dest) = Polygon then Park else Trail),
                                   location = dest,
                                   environmentalRating = percentile (properties bestParcel),
                                   guide = g\<rparr>"
        by blast
      from destination_is_park[OF b] d obtain pk where "parks s = Some pk"
        "dest \<in> set (parksInParcel T pk bestParcel)" by blast
      with ipk have "gtype (geometry dest) = Polygon" by (auto simp: parksInParcel_def)
      with h pl show ?thesis by auto
    qed
  qed
  from 1 2 3 4 show ?case by blast
qed

lemma scene_reachable:
  "reachable bbox_turf [trail_T] (scene [parcel_A, parcel_B] [park_P] [trail_T])"
proof -
  let ?raw = "\<lparr>rings = coordinates (geometry park_P), attributes = properties park_P\<rparr>"
  have "reachable bbox_turf [trail_T]
      (fetchParks bbox_turf (Inr [?raw])
        (loadBikePaths [trail_T]
          (fetchEnvironmentalData bbox_turf (Inr [parcel_A, parcel_B])
            (getUserLocation (Inr scene_user) initial_state))))"
    by (intro reachable.parks reachable.bike_paths reachable.environmental reachable.location
        reachable.mount)
  moreover have "\<lparr>geometry = \<lparr>gtype = Polygon, coordinates = rings ?raw\<rparr>,
                   properties = attributes ?raw\<rparr> = park_P"
    by (simp add: park_P_def scene_park_def rectangle_def)
  then have "fetchParks bbox_turf (Inr [?raw])
        (loadBikePaths [trail_T]
          (fetchEnvironmentalData bbox_turf (Inr [parcel_A, parcel_B])
            (getUserLocation (Inr scene_user) initial_state)))
      = scene [parcel_A, parcel_B] [park_P] [trail_T]"
    by (simp add: fetchParks_def loadBikePaths_def fetchEnvironmentalData_def getUserLocation_def
        scene_def isWithinSanDiego_cast)
  ultimately show ?thesis by simp
qed

section \<open>The radius filter\<close>

text \<open>
  C9. The radius filter is idempotent: applied to its own output, with the same origin and
  radius, it returns the same collection. It keeps exactly the features whose centre lies
  inside the buffer polygon, in their input order.
\<close>

theorem withinBuffer_idempotent:
  "withinBuffer T u r (withinBuffer T u r fs) = withinBuffer T u r fs
   \<and> subseq (withinBuffer T u r fs) fs
   \<and> set (withinBuffer T u r fs) =
       {f \<in> set fs. booleanPointInPolygon T (center T (geometry f)) (buffer T u r)}"
  by (simp add: withinBuffer_def)

section \<open>The parcel ranker\<close>

text \<open>
  C1, as amended. When the user's position, the parcels and the parks are loaded and the
  parcels in range carry a percentile, the ranker of the newer component returns the
  parcel of highest percentile among the parcels in range that have at least one park
  centred inside them; a better parcel without a park is passed over for the next one with
  a park. It returns nothing exactly when no parcel in range has a park inside. Trails are
  not consulted.
\<close>

theorem ranker_best_parcel_with_park:
  assumes "userLocation s = Some u" and "environmentalData s = Some env" and "parks s = Some pk"
      and "\<forall>p\<in>set (withinBuffer T u 2 env). percentile (properties p) \<noteq> None"
  shows "(findBestEnvironmentalParcel T s = None \<longleftrightarrow>
            (\<forall>p\<in>set (withinBuffer T u 2 env). parksInParcel T pk p = []))
       \<and> (\<forall>r. findBestEnvironmentalParcel T s = Some r \<longrightarrow>
             r \<in> set (withinBuffer T u 2 env) \<and> parksInParcel T pk r \<noteq> [] \<and>
             (\<forall>q\<in>set (withinBuffer T u 2 env). parksInParcel T pk q \<noteq> [] \<longrightarrow>
                the (percentile (properties q)) \<le> the (percentile (properties r))))"
proof (intro conjI allI impI)
  show "findBestEnvironmentalParcel T s = None \<longleftrightarrow>
          (\<forall>p\<in>set (withinBuffer T u 2 env). parksInParcel T pk p = [])"
    by (rule findBest_None_iff[OF assms(1-3)])
next
  fix r assume "findBestEnvironmentalParcel T s = Some r"
  then have f: "find (\<lambda>parcel. parksInParcel T pk parcel \<noteq> [])
      (js_sort by_percentile_desc (withinBuffer T u 2 env)) = Some r"
    by (simp add: findBest_unfold[OF assms(1-3)])
  from ranked_first(1)[OF assms(4) f] show "r \<in> set (withinBuffer T u 2 env)" .
  from ranked_first(2)[OF assms(4) f] show "parksInParcel T pk r \<noteq> []" .
  from ranked_first(3)[OF assms(4) f]
  show "\<forall>q\<in>set (withinBuffer T u 2 env). parksInParcel T pk q \<noteq> [] \<longrightarrow>
          the (percentile (properties q)) \<le> the (percentile (properties r))" .
qed

text \<open>
  The theorem at a scene: parcel A (0.9) has no park inside, parcel B (0.7) has one, and B
  is returned; with A alone nothing is returned.
\<close>

theorem ranker_best_parcel_with_park_witness:
  "findBestEnvironmentalParcel bbox_turf (scene [parcel_A, parcel_B] [park_P] [trail_T]) = Some parcel_B
   \<and> withinBuffer bbox_turf scene_user 2 [parcel_A, parcel_B] = [parcel_A, parcel_B]
   \<and> parksInParcel bbox_turf [park_P] parcel_A = []
   \<and> parksInParcel bbox_turf [park_P] parcel_B = [park_P]
   \<and> findBestEnvironmentalParcel bbox_turf (scene [parcel_A] [park_P] [trail_T]) = None"
proof -
  let ?s = "scene [parcel_A, parcel_B] [park_P] [trail_T]"
  let ?s' = "scene [parcel_A] [park_P] [trail_T]"
  have r: "withinBuffer bbox_turf scene_user 2 [parcel_A, parcel_B] = [parcel_A, parcel_B]"
    and r': "withinBuffer bbox_turf scene_user 2 [parcel_A] = [parcel_A]"
    by (simp_all add: withinBuffer_def in_range_cast)
  have n: "\<forall>p\<in>set (withinBuffer bbox_turf scene_user 2 [parcel_A, parcel_B]).
      percentile (properties p) \<noteq> None"
    and n': "\<forall>p\<in>set (withinBuffer bbox_turf scene_user 2 [parcel_A]).
      percentile (properties p) \<noteq> None"
    by (simp_all add: r r' cast_attributes del: not_None_eq)
  have a: "parksInParcel bbox_turf [park_P] parcel_A = []"
    and b: "parksInParcel bbox_turf [park_P] parcel_B = [park_P]"
    by (simp_all add: parksInParcel_def inside_parcel_A inside_parcel_B)
  note w = ranker_best_parcel_with_park[where s="?s", OF scene_fields(1) scene_fields(2) scene_fields(3) n]
  note w' = ranker_best_parcel_with_park[where s="?s'", OF scene_fields(1) scene_fields(2) scene_fields(3) n']
  from w have "findBestEnvironmentalParcel bbox_turf ?s \<noteq> None"
    by (simp add: r a b)
  then obtain x where x: "findBestEnvironmentalParcel bbox_turf ?s = Some x"
    by auto
  with w have "x \<in> set [parcel_A, parcel_B]" "parksInParcel bbox_turf [park_P] x \<noteq> []"
    by (simp_all add: r)
  with a have "x = parcel_B" by auto
  moreover from w' have "findBestEnvironmentalParcel bbox_turf ?s' = None"
    by (simp add: r' a)
  ultimately show ?thesis using x r a b by simp
qed

text \<open>
  C1 as it is stated fails: in the same scene a trail is centred inside the better parcel A,
  which is in range, and the ranker still returns B. And of two parcels in range with a
  park inside, N without percentile and B of percentile 0.7, the ranker returns N, listed
  first: the comparator returns NaN, the two compare equal, and the stable sort keeps them
  in place.
\<close>

theorem ranker_ignores_trails_counterexample:
  "findBestEnvironmentalParcel bbox_turf (scene [parcel_A, parcel_B] [park_P] [trail_T]) = Some parcel_B
   \<and> parcel_B \<noteq> parcel_A
   \<and> withinBuffer bbox_turf scene_user 2 [parcel_A, parcel_B] = [parcel_A, parcel_B]
   \<and> parksInParcel bbox_turf [park_P] parcel_A = []
   \<and> trailsInParcel bbox_turf [trail_T] parcel_A = [trail_T]
   \<and> percentile (properties parcel_A) = Some 0.9
   \<and> percentile (properties parcel_B) = Some 0.7
   \<and> findBestEnvironmentalParcel bbox_turf (scene [parcel_N, parcel_B] [park_P] [trail_T])
        = Some parcel_N
   \<and> parcel_N \<noteq> parcel_B
   \<and> withinBuffer bbox_turf scene_user 2 [parcel_N, parcel_B] = [parcel_N, parcel_B]
   \<and> parksInParcel bbox_turf [park_P] parcel_B = [park_P]
   \<and> percentile (properties parcel_N) = None"
  by (simp add: findBestEnvironmentalParcel_def scene_fields withinBuffer_def parksInParcel_def
      trailsInParcel_def in_range_cast inside_parcel_A inside_parcel_B inside_parcel_N
      cast_attributes cast_distinct SortCompare_def by_percentile_desc_def js_minus_def)

text \<open>
  C5, as amended. When the parcels in range all carry a percentile, the ranking keeps the
  parcels of equal percentile in their input order. The parcel selected by the newer
  component has the highest percentile among the parcels in range with a park inside, and
  is the first, in input order, of those with that percentile. The parcel selected by
  \<^verbatim>\<open>src/Map.js\<close> has the highest percentile of the parcels in range and is the first of those
  with that percentile.
\<close>

theorem ranking_stable_first_listed_wins:
  assumes "userLocation s = Some u" and "environmentalData s = Some env"
      and "\<forall>p\<in>set (withinBuffer T u 2 env). percentile (properties p) \<noteq> None"
  shows "(\<forall>k. filter (\<lambda>p. percentile (properties p) = k)
                (js_sort by_percentile_desc (withinBuffer T u 2 env)) =
              filter (\<lambda>p. percentile (properties p) = k) (withinBuffer T u 2 env))
       \<and> (\<forall>pk r. parks s = Some pk \<longrightarrow> findBestEnvironmentalParcel T s = Some r \<longrightarrow>
             (\<forall>q\<in>set (withinBuffer T u 2 env). parksInParcel T pk q \<noteq> [] \<longrightarrow>
                the (percentile (properties q)) \<le> the (percentile (properties r))) \<and>
             find (\<lambda>q. percentile (properties q) = percentile (properties r))
               (filter (\<lambda>q. parksInParcel T pk q \<noteq> []) (withinBuffer T u 2 env)) = Some r)
       \<and> (\<forall>r. findBestEnvironmentalParcel_MapJs T s = Inr (Some r) \<longrightarrow>
             (\<forall>q\<in>set (withinBuffer T u 2 env).
                the (percentile (properties q)) \<le> the (percentile (properties r))) \<and>
             find (\<lambda>q. percentile (properties q) = percentile (properties r))
               (withinBuffer T u 2 env) = Some r)"
proof (intro conjI allI impI)
  fix k
  show "filter (\<lambda>p. percentile (properties p) = k)
          (js_sort by_percentile_desc (withinBuffer T u 2 env)) =
        filter (\<lambda>p. percentile (properties p) = k) (withinBuffer T u 2 env)"
    by (rule ranking_keeps_ties[OF assms(3)])
next
  fix pk r
  assume pk: "parks s = Some pk" and r: "findBestEnvironmentalParcel T s = Some r"
  then have f: "find (\<lambda>parcel. parksInParcel T pk parcel \<noteq> [])
      (js_sort by_percentile_desc (withinBuffer T u 2 env)) = Some r"
    by (simp add: findBest_unfold[OF assms(1,2) pk])
  from ranked_first(3)[OF assms(3) f]
  show "\<forall>q\<in>set (withinBuffer T u 2 env). parksInParcel T pk q \<noteq> [] \<longrightarrow>
          the (percentile (properties q)) \<le> the (percentile (properties r))" .
  from ranked_first(4)[OF assms(3) f]
  show "find (\<lambda>q. percentile (properties q) = percentile (properties r))
          (filter (\<lambda>q. parksInParcel T pk q \<noteq> []) (withinBuffer T u 2 env)) = Some r" .
next
  fix r
  assume r: "findBestEnvironmentalParcel_MapJs T s = Inr (Some r)"
  then obtain x xs where xs: "withinBuffer T u 2 env = x # xs"
    by (cases "withinBuffer T u 2 env") (auto simp: findBest_MapJs_unfold[OF assms(1,2)])
  with r have "foldl (\<lambda>best current.
      if js_gt (percentile (properties current)) (percentile (properties best))
      then current else best) x xs = r"
    by (simp add: findBest_MapJs_unfold[OF assms(1,2)])
  from foldl_first_max[where key="\<lambda>q. percentile (properties q)", OF this]
  have m: "r \<in> set (x # xs)"
    "\<forall>q\<in>set (x # xs). \<not> js_gt (percentile (properties q)) (percentile (properties r))"
    "find (\<lambda>q. percentile (properties q) = percentile (properties r)) (x # xs) = Some r"
    by blast+
  show "\<forall>q\<in>set (withinBuffer T u 2 env).
          the (percentile (properties q)) \<le> the (percentile (properties r))"
  proof
    fix q assume q: "q \<in> set (withinBuffer T u 2 env)"
    with assms(3) m(1) xs obtain a b where
      "percentile (properties q) = Some a" "percentile (properties r) = Some b"
      by fastforce
    with m(2) q xs show "the (percentile (properties q)) \<le> the (percentile (properties r))"
      by fastforce
  qed
  from m(3) xs
  show "find (\<lambda>q. percentile (properties q) = percentile (properties r))
          (withinBuffer T u 2 env) = Some r" by simp
qed

text \<open>
  The theorem at two scenes: C and B tie at 0.7 and have a park inside, A (0.9) has none;
  C, listed first, is selected. In \<^verbatim>\<open>src/Map.js\<close>, of B and C the first-listed B is selected.
\<close>

theorem ranking_stable_first_listed_wins_witness:
  "withinBuffer bbox_turf scene_user 2 [parcel_C, parcel_A, parcel_B] = [parcel_C, parcel_A, parcel_B]
   \<and> js_sort by_percentile_desc [parcel_C, parcel_A, parcel_B] = [parcel_A, parcel_C, parcel_B]
   \<and> findBestEnvironmentalParcel bbox_turf (scene [parcel_C, parcel_A, parcel_B] [park_P] [])
        = Some parcel_C
   \<and> find (\<lambda>q. percentile (properties q) = percentile (properties parcel_C))
        (filter (\<lambda>q. parksInParcel bbox_turf [park_P] q \<noteq> []) [parcel_C, parcel_A, parcel_B])
        = Some parcel_C
   \<and> findBestEnvironmentalParcel_MapJs bbox_turf (scene [parcel_B, parcel_C] [] [])
        = Inr (Some parcel_B)
   \<and> find (\<lambda>q. percentile (properties q) = percentile (properties parcel_B)) [parcel_B, parcel_C]
        = Some parcel_B"
proof -
  let ?s = "scene [parcel_C, parcel_A, parcel_B] [park_P] []"
  let ?s' = "scene [parcel_B, parcel_C] [] []"
  have r: "withinBuffer bbox_turf scene_user 2 [parcel_C, parcel_A, parcel_B]
      = [parcel_C, parcel_A, parcel_B]"
    and r': "withinBuffer bbox_turf scene_user 2 [parcel_B, parcel_C] = [parcel_B, parcel_C]"
    by (simp_all add: withinBuffer_def in_range_cast)
  have n: "\<forall>p\<in>set (withinBuffer bbox_turf scene_user 2 [parcel_C, parcel_A, parcel_B]).
      percentile (properties p) \<noteq> None"
    and n': "\<forall>p\<in>set (withinBuffer bbox_turf scene_user 2 [parcel_B, parcel_C]).
      percentile (properties p) \<noteq> None"
    by (simp_all add: r r' cast_attributes del: not_None_eq)
  have srt: "js_sort by_percentile_desc [parcel_C, parcel_A, parcel_B] = [parcel_A, parcel_C, parcel_B]"
    by (simp add: plan_eval)
  have best: "findBestEnvironmentalParcel bbox_turf ?s = Some parcel_C"
    by (simp add: plan_eval)
  have best': "findBestEnvironmentalParcel_MapJs bbox_turf ?s' = Inr (Some parcel_B)"
    by (simp add: plan_eval)
  note w = ranking_stable_first_listed_wins[where s="?s" and T=bbox_turf,
      OF scene_fields(1) scene_fields(2) n]
  note w' = ranking_stable_first_listed_wins[where s="?s'" and T=bbox_turf,
      OF scene_fields(1) scene_fields(2) n']
  from w best have "find (\<lambda>q. percentile (properties q) = percentile (properties parcel_C))
        (filter (\<lambda>q. parksInParcel bbox_turf [park_P] q \<noteq> [])
           (withinBuffer bbox_turf scene_user 2 [parcel_C, parcel_A, parcel_B])) = Some parcel_C"
    using scene_fields(3)[of "[parcel_C, parcel_A, parcel_B]" "[park_P]" "[]"] by blast
  moreover from w' best'
  have "find (\<lambda>q. percentile (properties q) = percentile (properties parcel_B))
        (withinBuffer bbox_turf scene_user 2 [parcel_B, parcel_C]) = Some parcel_B"
    by blast
  ultimately show ?thesis using r r' srt best best' by simp
qed

text \<open>
  C5 as it is stated fails. In the newer component, of A and D, tied at 0.9 and both in
  range, the first-listed A has no park inside and D is selected. With N, which has no
  percentile, listed before B and C, tied at 0.7, every comparison returns NaN or 0, the
  stable sort keeps the three in place, and N is selected. In \<^verbatim>\<open>src/Map.js\<close>, with N listed
  before A and D, no comparison with N is true and N is selected.
\<close>

theorem first_listed_of_ties_counterexample:
  "withinBuffer bbox_turf scene_user 2 [parcel_A, parcel_D] = [parcel_A, parcel_D]
   \<and> percentile (properties parcel_A) = Some 0.9
   \<and> percentile (properties parcel_D) = Some 0.9
   \<and> parksInParcel bbox_turf [park_P] parcel_A = []
   \<and> parksInParcel bbox_turf [park_P] parcel_D = [park_P]
   \<and> findBestEnvironmentalParcel bbox_turf (scene [parcel_A, parcel_D] [park_P] [trail_T])
        = Some parcel_D
   \<and> parcel_D \<noteq> parcel_A
   \<and> withinBuffer bbox_turf scene_user 2 [parcel_N, parcel_B, parcel_C]
        = [parcel_N, parcel_B, parcel_C]
   \<and> percentile (properties parcel_N) = None
   \<and> percentile (properties parcel_B) = Some 0.7
   \<and> percentile (properties parcel_C) = Some 0.7
   \<and> parksInParcel bbox_turf [park_P] parcel_B = [park_P]
   \<and> findBestEnvironmentalParcel bbox_turf (scene [parcel_N, parcel_B, parcel_C] [park_P] [trail_T])
        = Some parcel_N
   \<and> parcel_N \<noteq> parcel_B
   \<and> withinBuffer bbox_turf scene_user 2 [parcel_N, parcel_A, parcel_D]
        = [parcel_N, parcel_A, parcel_D]
   \<and> findBestEnvironmentalParcel_MapJs bbox_turf
          (scene [parcel_N, parcel_A, parcel_D] [park_P] [trail_T])
        = Inr (Some parcel_N)
   \<and> parcel_N \<noteq> parcel_A"
  by (simp add: plan_eval)

section \<open>The destination selector\<close>

text \<open>
  C6, as amended. With parks and bike paths loaded: when at least one park is centred inside
  the parcel, and these parks all carry an acres value, the selector returns one of them
  with the largest acres, and among the parks of that largest acres the first in input
  order.
\<close>

theorem biggest_park_first_max:
  assumes "parks s = Some pk" and "bikePaths s = Some bp"
      and "parksInParcel T pk parcel \<noteq> []"
      and "\<forall>q\<in>set (parksInParcel T pk parcel). acres (properties q) \<noteq> None"
  shows "\<exists>r. findBiggestParkOrTrail T s parcel = Inr (Some r) \<and>
             r \<in> set (parksInParcel T pk parcel) \<and>
             (\<forall>q\<in>set (parksInParcel T pk parcel).
                the (acres (properties q)) \<le> the (acres (properties r))) \<and>
             find (\<lambda>q. acres (properties q) = acres (properties r)) (parksInParcel T pk parcel) = Some r"
proof -
  from assms(3) obtain q0 qs where qs: "parksInParcel T pk parcel = q0 # qs"
    by (cases "parksInParcel T pk parcel") auto
  define r where "r = foldl (\<lambda>biggest current.
      if js_gt (acres (properties current)) (acres (properties biggest)) then current else biggest) q0 qs"
  have res: "findBiggestParkOrTrail T s parcel = Inr (Some r)"
    unfolding r_def by (rule findBiggest_parks[OF assms(1,2) qs])
  from foldl_first_max[where key="\<lambda>q. acres (properties q)", OF r_def[symmetric]]
  have m: "r \<in> set (q0 # qs)" "\<forall>q\<in>set (q0 # qs). \<not> js_gt (acres (properties q)) (acres (properties r))"
    "find (\<lambda>q. acres (properties q) = acres (properties r)) (q0 # qs) = Some r"
    by blast+
  have "\<forall>q\<in>set (q0 # qs). the (acres (properties q)) \<le> the (acres (properties r))"
  proof
    fix q assume q: "q \<in> set (q0 # qs)"
    with assms(4) m(1) qs obtain a b where "acres (properties q) = Some a" "acres (properties r) = Some b"
      by fastforce
    with m(2) q show "the (acres (properties q)) \<le> the (acres (properties r))" by fastforce
  qed
  with res m qs show ?thesis by simp
qed

text \<open>
  The theorem at a scene: parks of 3.2, 7.8 and 7.8 acres inside the parcel, in this order;
  the first of the two largest is returned.
\<close>

theorem biggest_park_first_max_witness:
  "findBiggestParkOrTrail bbox_turf (scene [parcel_B] [park_S, park_L, park_M] [trail_T]) parcel_B
     = Inr (Some park_L)
   \<and> parksInParcel bbox_turf [park_S, park_L, park_M] parcel_B = [park_S, park_L, park_M]
   \<and> acres (properties park_S) = Some 3.2
   \<and> acres (properties park_L) = Some 7.8
   \<and> acres (properties park_M) = Some 7.8"
proof -
  let ?s = "scene [parcel_B] [park_S, park_L, park_M] [trail_T]"
  have q: "parksInParcel bbox_turf [park_S, park_L, park_M] parcel_B = [park_S, park_L, park_M]"
    by (simp add: parksInParcel_def inside_parcel_B)
  have ne: "parksInParcel bbox_turf [park_S, park_L, park_M] parcel_B \<noteq> []"
    by (simp add: q)
  have n: "\<forall>q\<in>set (parksInParcel bbox_turf [park_S, park_L, park_M] parcel_B).
      acres (properties q) \<noteq> None"
    by (simp add: q cast_attributes del: not_None_eq)
  from biggest_park_first_max[where s="?s", OF scene_fields(3) scene_fields(4) ne n]
  obtain r where res: "findBiggestParkOrTrail bbox_turf ?s parcel_B = Inr (Some r)"
    and mem: "r \<in> set (parksInParcel bbox_turf [park_S, park_L, park_M] parcel_B)"
    and mx: "\<forall>q\<in>set (parksInParcel bbox_turf [park_S, park_L, park_M] parcel_B).
               the (acres (properties q)) \<le> the (acres (properties r))"
    and first: "find (\<lambda>q. acres (properties q) = acres (properties r))
                  (parksInParcel bbox_turf [park_S, park_L, park_M] parcel_B) = Some r"
    by blast
  from mem have cases: "r = park_S \<or> r = park_L \<or> r = park_M" by (simp add: q)
  from mx have "the (acres (properties park_L)) \<le> the (acres (properties r))" by (simp add: q)
  then have "r \<noteq> park_S" by (auto simp: cast_attributes)
  moreover have "r \<noteq> park_M"
  proof
    assume "r = park_M"
    with first have "find (\<lambda>q. acres (properties q) = acres (properties park_M))
        [park_S, park_L, park_M] = Some park_M" by (simp add: q)
    then show False by (simp add: cast_attributes cast_distinct)
  qed
  ultimately have "r = park_L" using cases by blast
  with res q show ?thesis by (simp add: cast_attributes)
qed

text \<open>
  C6 as it is stated fails. Of two parks inside the parcel, U without acres and L of 7.8
  acres, the selector returns U, listed first: no comparison with \<^verbatim>\<open>undefined\<close> is true. And
  while the bike paths are not loaded the selector returns nothing, whatever parks are
  inside the parcel.
\<close>

theorem largest_park_counterexample:
  "parksInParcel bbox_turf [park_U, park_L] parcel_B = [park_U, park_L]
   \<and> acres (properties park_U) = None
   \<and> acres (properties park_L) = Some 7.8
   \<and> findBiggestParkOrTrail bbox_turf (scene [parcel_B] [park_U, park_L] [trail_T]) parcel_B
        = Inr (Some park_U)
   \<and> park_U \<noteq> park_L
   \<and> parks (initial_state\<lparr>parks := Some [park_P]\<rparr>) = Some [park_P]
   \<and> bikePaths (initial_state\<lparr>parks := Some [park_P]\<rparr>) = None
   \<and> parksInParcel bbox_turf [park_P] parcel_B = [park_P]
   \<and> findBiggestParkOrTrail bbox_turf (initial_state\<lparr>parks := Some [park_P]\<rparr>) parcel_B
        = Inr None"
  by (simp add: plan_eval initial_state_def)

text \<open>
  C7. With both collections loaded: as soon as one park is centred inside the parcel the
  selector returns a park of the parks collection centred inside the parcel, whatever the
  trails are; with no such park it returns the first trail, in input order, centred inside
  the parcel, and nothing when there is none.
\<close>

theorem park_preferred_over_trail:
  assumes "parks s = Some pk" and "bikePaths s = Some bp"
  shows "(parksInParcel T pk parcel \<noteq> [] \<longrightarrow>
            (\<exists>r\<in>set pk. booleanPointInPolygon T (center T (geometry r)) (geometry parcel) \<and>
                 findBiggestParkOrTrail T s parcel = Inr (Some r)))
       \<and> (parksInParcel T pk parcel = [] \<longrightarrow>
            findBiggestParkOrTrail T s parcel =
              Inr (find (\<lambda>trail. booleanPointInPolygon T (center T (geometry trail)) (geometry parcel)) bp))"
proof (intro conjI impI)
  assume "parksInParcel T pk parcel \<noteq> []"
  then obtain q0 qs where qs: "parksInParcel T pk parcel = q0 # qs"
    by (cases "parksInParcel T pk parcel") auto
  define r where "r = foldl (\<lambda>biggest current.
      if js_gt (acres (properties current)) (acres (properties biggest)) then current else biggest) q0 qs"
  from foldl_first_max[where key="\<lambda>q. acres (properties q)", OF r_def[symmetric]]
  have "r \<in> set (parksInParcel T pk parcel)" by (simp add: qs)
  then have "r \<in> set pk" "booleanPointInPolygon T (center T (geometry r)) (geometry parcel)"
    by (simp_all add: parksInParcel_def)
  moreover have "findBiggestParkOrTrail T s parcel = Inr (Some r)"
    unfolding r_def by (rule findBiggest_parks[OF assms qs])
  ultimately show "\<exists>r\<in>set pk. booleanPointInPolygon T (center T (geometry r)) (geometry parcel) \<and>
                 findBiggestParkOrTrail T s parcel = Inr (Some r)" by blast
next
  assume "parksInParcel T pk parcel = []"
  then show "findBiggestParkOrTrail T s parcel =
      Inr (find (\<lambda>trail. booleanPointInPolygon T (center T (geometry trail)) (geometry parcel)) bp)"
    by (rule findBiggest_trails[OF assms])
qed

text \<open>
  The theorem at three scenes: a park and two trails inside the parcel; no park, and the
  second trail of the collection the first one inside; neither a park nor a trail inside.
\<close>

theorem park_preferred_over_trail_witness:
  "findBiggestParkOrTrail bbox_turf (scene [parcel_B] [park_P] [trail_T, trail_V]) parcel_B
     = Inr (Some park_P)
   \<and> findBiggestParkOrTrail bbox_turf (scene [parcel_B] [] [trail_far, trail_V, trail_T]) parcel_B
     = Inr (Some trail_V)
   \<and> findBiggestParkOrTrail bbox_turf (scene [parcel_A] [park_P] [trail_far, trail_V]) parcel_A
     = Inr None"
proof -
  have "parksInParcel bbox_turf [park_P] parcel_B \<noteq> []"
    by (simp add: parksInParcel_def inside_parcel_B)
  with park_preferred_over_trail[where s="scene [parcel_B] [park_P] [trail_T, trail_V]"
      and parcel=parcel_B and T=bbox_turf, OF scene_fields(3) scene_fields(4)]
  have 1: "findBiggestParkOrTrail bbox_turf (scene [parcel_B] [park_P] [trail_T, trail_V]) parcel_B
     = Inr (Some park_P)" by simp
  have "parksInParcel bbox_turf [] parcel_B = []"
    by (simp add: parksInParcel_def)
  with park_preferred_over_trail[where s="scene [parcel_B] [] [trail_far, trail_V, trail_T]"
      and parcel=parcel_B and T=bbox_turf, OF scene_fields(3) scene_fields(4)]
  have 2: "findBiggestParkOrTrail bbox_turf (scene [parcel_B] [] [trail_far, trail_V, trail_T]) parcel_B
     = Inr (Some trail_V)" by (simp add: inside_parcel_B)
  have "parksInParcel bbox_turf [park_P] parcel_A = []"
    by (simp add: parksInParcel_def inside_parcel_A)
  with park_preferred_over_trail[where s="scene [parcel_A] [park_P] [trail_far, trail_V]"
      and parcel=parcel_A and T=bbox_turf, OF scene_fields(3) scene_fields(4)]
  have 3: "findBiggestParkOrTrail bbox_turf (scene [parcel_A] [park_P] [trail_far, trail_V]) parcel_A
     = Inr None" by (simp add: inside_parcel_A)
  from 1 2 3 show ?thesis by simp
qed

section \<open>Missing numeric attributes\<close>

text \<open>
  C4, as amended. With parks and bike paths loaded, the destination selector never raises.
  Among the parks centred inside the parcel it returns the first one when that park has no
  acres value, whatever the areas of the others; when the first one has an acres value, the
  returned park has one too, and no park inside the parcel compares greater. The ranker of
  \<^verbatim>\<open>src/Map.js\<close> treats a missing percentile in the same way. Plan construction in the newer
  component completes whenever the selected destination has an acres value.
\<close>

theorem missing_attribute_priority:
  assumes "parks s = Some pk" and "bikePaths s = Some bp"
  shows "(\<forall>parcel e. findBiggestParkOrTrail T s parcel \<noteq> Inl e)
       \<and> (\<forall>parcel q0 qs. parksInParcel T pk parcel = q0 # qs \<longrightarrow>
            (\<exists>r. findBiggestParkOrTrail T s parcel = Inr (Some r) \<and> r \<in> set (q0 # qs) \<and>
                 (acres (properties q0) = None \<longrightarrow> r = q0) \<and>
                 (acres (properties q0) \<noteq> None \<longrightarrow> acres (properties r) \<noteq> None) \<and>
                 (\<forall>q\<in>set (q0 # qs). \<not> js_gt (acres (properties q)) (acres (properties r)))))
       \<and> (\<forall>u env p0 ps. userLocation s = Some u \<longrightarrow> environmentalData s = Some env \<longrightarrow>
            withinBuffer T u 2 env = p0 # ps \<longrightarrow>
            (\<exists>r. findBestEnvironmentalParcel_MapJs T s = Inr (Some r) \<and> r \<in> set (p0 # ps) \<and>
                 (percentile (properties p0) = None \<longrightarrow> r = p0) \<and>
                 (percentile (properties p0) \<noteq> None \<longrightarrow> percentile (properties r) \<noteq> None) \<and>
                 (\<forall>q\<in>set (p0 # ps).
                    \<not> js_gt (percentile (properties q)) (percentile (properties r)))))
       \<and> (\<forall>S bestParcel dest. findBestEnvironmentalParcel T s = Some bestParcel \<longrightarrow>
            findBiggestParkOrTrail T s bestParcel = Inr (Some dest) \<longrightarrow>
            acres (properties dest) \<noteq> None \<longrightarrow>
            (\<exists>s'. buildHealthyPlan T S s = Inr s'))"
proof (intro conjI allI impI)
  fix parcel e
  show "findBiggestParkOrTrail T s parcel \<noteq> Inl e" by (rule findBiggest_never_raises)
next
  fix parcel q0 qs
  assume qs: "parksInParcel T pk parcel = q0 # qs"
  define r where "r = foldl (\<lambda>biggest current.
      if js_gt (acres (properties current)) (acres (properties biggest)) then current else biggest) q0 qs"
  have "findBiggestParkOrTrail T s parcel = Inr (Some r)"
    unfolding r_def by (rule findBiggest_parks[OF assms qs])
  with foldl_first_max[where key="\<lambda>q. acres (properties q)", OF r_def[symmetric]]
  show "\<exists>r. findBiggestParkOrTrail T s parcel = Inr (Some r) \<and> r \<in> set (q0 # qs) \<and>
           (acres (properties q0) = None \<longrightarrow> r = q0) \<and>
           (acres (properties q0) \<noteq> None \<longrightarrow> acres (properties r) \<noteq> None) \<and>
           (\<forall>q\<in>set (q0 # qs). \<not> js_gt (acres (properties q)) (acres (properties r)))"
    by (intro exI[of _ r]) simp
next
  fix u env p0 ps
  assume l: "userLocation s = Some u" "environmentalData s = Some env"
    and ps: "withinBuffer T u 2 env = p0 # ps"
  define r where "r = foldl (\<lambda>best current.
      if js_gt (percentile (properties current)) (percentile (properties best))
      then current else best) p0 ps"
  have "findBestEnvironmentalParcel_MapJs T s = Inr (Some r)"
    unfolding r_def by (simp add: findBest_MapJs_unfold[OF l] ps)
  with foldl_first_max[where key="\<lambda>q. percentile (properties q)", OF r_def[symmetric]]
  show "\<exists>r. findBestEnvironmentalParcel_MapJs T s = Inr (Some r) \<and> r \<in> set (p0 # ps) \<and>
           (percentile (properties p0) = None \<longrightarrow> r = p0) \<and>
           (percentile (properties p0) \<noteq> None \<longrightarrow> percentile (properties r) \<noteq> None) \<and>
           (\<forall>q\<in>set (p0 # ps). \<not> js_gt (percentile (properties q)) (percentile (properties r)))"
    by (intro exI[of _ r]) simp
next
  fix S bestParcel dest
  assume b: "findBestEnvironmentalParcel T s = Some bestParcel"
    and d: "findBiggestParkOrTrail T s bestParcel = Inr (Some dest)"
    and a: "acres (properties dest) \<noteq> None"
  from a obtain g where "generateParkGuide S dest = Inr g"
    using generateParkGuide_acres by fastforce
  from buildHealthyPlan_guide[OF b d this]
  show "\<exists>s'. buildHealthyPlan T S s = Inr s'" by blast
qed

text \<open>
  The theorem at three scenes: a park without acres listed first is returned; listed second
  it is not; a parcel without percentile listed first is returned by \<^verbatim>\<open>src/Map.js\<close>.
\<close>

theorem missing_attribute_priority_witness:
  "findBiggestParkOrTrail bbox_turf (scene [parcel_B] [park_U, park_P] [trail_T]) parcel_B
     = Inr (Some park_U)
   \<and> findBiggestParkOrTrail bbox_turf (scene [parcel_B] [park_P, park_U] [trail_T]) parcel_B
     = Inr (Some park_P)
   \<and> findBestEnvironmentalParcel_MapJs bbox_turf (scene [parcel_N, parcel_A] [park_P] [trail_T])
     = Inr (Some parcel_N)
   \<and> (\<exists>s'. buildHealthyPlan bbox_turf offline (scene [parcel_B] [park_P, park_U] [trail_T])
            = Inr s')"
proof -
  let ?s1 = "scene [parcel_B] [park_U, park_P] [trail_T]"
  let ?s2 = "scene [parcel_B] [park_P, park_U] [trail_T]"
  let ?s3 = "scene [parcel_N, parcel_A] [park_P] [trail_T]"
  note w1 = missing_attribute_priority[where s="?s1" and T=bbox_turf, OF scene_fields(3) scene_fields(4)]
  note w2 = missing_attribute_priority[where s="?s2" and T=bbox_turf, OF scene_fields(3) scene_fields(4)]
  note w3 = missing_attribute_priority[where s="?s3" and T=bbox_turf, OF scene_fields(3) scene_fields(4)]
  have q1: "parksInParcel bbox_turf [park_U, park_P] parcel_B = park_U # [park_P]"
    and q2: "parksInParcel bbox_turf [park_P, park_U] parcel_B = park_P # [park_U]"
    by (simp_all add: parksInParcel_def inside_parcel_B)
  from w1[THEN conjunct2, THEN conjunct1, rule_format, OF q1] obtain r1 where
    "findBiggestParkOrTrail bbox_turf ?s1 parcel_B = Inr (Some r1)"
    "acres (properties park_U) = None \<longrightarrow> r1 = park_U"
    by (elim exE conjE)
  then have 1: "findBiggestParkOrTrail bbox_turf ?s1 parcel_B = Inr (Some park_U)"
    by (simp add: cast_attributes)
  from w2[THEN conjunct2, THEN conjunct1, rule_format, OF q2] obtain r2 where
    "findBiggestParkOrTrail bbox_turf ?s2 parcel_B = Inr (Some r2)" "r2 \<in> set (park_P # [park_U])"
    "acres (properties park_P) \<noteq> None \<longrightarrow> acres (properties r2) \<noteq> None"
    by (elim exE conjE)
  then have 2: "findBiggestParkOrTrail bbox_turf ?s2 parcel_B = Inr (Some park_P)"
    by (auto simp: cast_attributes)
  have r3: "withinBuffer bbox_turf scene_user 2 [parcel_N, parcel_A] = parcel_N # [parcel_A]"
    by (simp add: withinBuffer_def in_range_cast)
  from w3[THEN conjunct2, THEN conjunct2, THEN conjunct1, rule_format,
      OF scene_fields(1) scene_fields(2) r3]
  obtain r where
    "findBestEnvironmentalParcel_MapJs bbox_turf ?s3 = Inr (Some r)"
    "percentile (properties parcel_N) = None \<longrightarrow> r = parcel_N"
    by (elim exE conjE)
  then have 3: "findBestEnvironmentalParcel_MapJs bbox_turf ?s3 = Inr (Some parcel_N)"
    by (simp add: cast_attributes)
  have b: "findBestEnvironmentalParcel bbox_turf ?s2 = Some parcel_B"
    by (simp add: plan_eval)
  have a: "acres (properties park_P) \<noteq> None" by (simp add: cast_attributes)
  have 4: "\<exists>s'. buildHealthyPlan bbox_turf offline ?s2 = Inr s'"
    by (rule w2[THEN conjunct2, THEN conjunct2, THEN conjunct2, rule_format, OF b 2 a])
  from 1 2 3 4 show ?thesis by blast
qed

text \<open>
  C4 as it is stated fails: a park without acres wins over a park of 5 acres listed after
  it, and building the plan for it raises a TypeError; in \<^verbatim>\<open>src/Map.js\<close> a parcel without
  percentile wins over a parcel of percentile 0.9 listed after it. In the newer component,
  of two parcels with a park inside, the one without percentile, listed first, wins over
  the one of percentile 0.7: the comparator returns NaN, the two compare equal, and the
  stable sort keeps them in place.
\<close>

theorem missing_acres_wins_counterexample:
  "parksInParcel bbox_turf [park_U, park_P] parcel_B = [park_U, park_P]
   \<and> acres (properties park_U) = None
   \<and> acres (properties park_P) = Some 5
   \<and> park_U \<noteq> park_P
   \<and> findBiggestParkOrTrail bbox_turf (scene [parcel_B] [park_U, park_P] [trail_T]) parcel_B
        = Inr (Some park_U)
   \<and> findBestEnvironmentalParcel bbox_turf (scene [parcel_B] [park_U, park_P] [trail_T])
        = Some parcel_B
   \<and> buildHealthyPlan bbox_turf offline (scene [parcel_B] [park_U, park_P] [trail_T])
        = Inl TypeError
   \<and> percentile (properties parcel_N) = None
   \<and> percentile (properties parcel_A) = Some 0.9
   \<and> findBestEnvironmentalParcel_MapJs bbox_turf (scene [parcel_N, parcel_A] [park_P] [trail_T])
        = Inr (Some parcel_N)
   \<and> percentile (properties parcel_B) = Some 0.7
   \<and> findBestEnvironmentalParcel bbox_turf (scene [parcel_N, parcel_B] [park_P] [trail_T])
        = Some parcel_N"
  by (simp add: plan_eval buildHealthyPlan_def generateParkGuide_def build_prompt_def)

section \<open>Building the plan\<close>

text \<open>
  C8. When the parcel and the destination are found, the prompt is built and the request to
  the narrative service fails, \<^verbatim>\<open>generateParkGuide\<close> returns the placeholder and the plan is
  built, for this destination, with the placeholder as its guide.
\<close>

theorem narrative_failure_placeholder:
  assumes "findBestEnvironmentalParcel T s = Some bestParcel"
      and "findBiggestParkOrTrail T s bestParcel = Inr (Some dest)"
      and "build_prompt dest = Inr p"
      and "narrative S p = Inl e"
  shows "generateParkGuide S dest = Inr placeholder_guide
       \<and> (\<exists>s' pl. buildHealthyPlan T S s = Inr s' \<and> healthyPlan s' = Some pl \<and>
             location pl = dest \<and> guide pl = placeholder_guide)"
proof -
  from assms(3,4) have g: "generateParkGuide S dest = Inr placeholder_guide"
    by (simp add: generateParkGuide_def)
  from buildHealthyPlan_guide[OF assms(1,2) g] g show ?thesis by fastforce
qed

text \<open>The theorem at a scene with both services failing.\<close>

theorem narrative_failure_placeholder_witness:
  "findBestEnvironmentalParcel bbox_turf (scene [parcel_A, parcel_B] [park_P] [trail_T]) = Some parcel_B
   \<and> findBiggestParkOrTrail bbox_turf (scene [parcel_A, parcel_B] [park_P] [trail_T]) parcel_B
        = Inr (Some park_P)
   \<and> build_prompt park_P = Inr (Prompt 5 (properties park_P))
   \<and> narrative offline (Prompt 5 (properties park_P)) = Inl NetworkError
   \<and> generateParkGuide offline park_P = Inr placeholder_guide
   \<and> (\<exists>s' pl. buildHealthyPlan bbox_turf offline (scene [parcel_A, parcel_B] [park_P] [trail_T])
                  = Inr s' \<and>
               healthyPlan s' = Some pl \<and> location pl = park_P \<and> guide pl = placeholder_guide)"
proof -
  let ?s = "scene [parcel_A, parcel_B] [park_P] [trail_T]"
  have b: "findBestEnvironmentalParcel bbox_turf ?s = Some parcel_B"
    by (simp add: plan_eval)
  have d: "findBiggestParkOrTrail bbox_turf ?s parcel_B = Inr (Some park_P)"
    by (simp add: plan_eval)
  have p: "build_prompt park_P = Inr (Prompt 5 (properties park_P))"
    by (simp add: build_prompt_def cast_attributes)
  have n: "narrative offline (Prompt 5 (properties park_P)) = Inl NetworkError"
    by (simp add: offline_def)
  from narrative_failure_placeholder[OF b d p n] b d p n show ?thesis by simp
qed

text \<open>
  C2. \<^verbatim>\<open>src/Map.js\<close> evaluated where no parcel is in range of the user (the only parcel is
  some 25 miles away, or the collection is empty): the \<^verbatim>\<open>reduce\<close> over the empty array raises
  a TypeError, and so does plan construction. The newer component returns nothing and
  leaves the state as it is.
\<close>

theorem MapJs_no_parcel_in_range_raises:
  "withinBuffer bbox_turf scene_user 2 [parcel_far] = []
   \<and> findBestEnvironmentalParcel_MapJs bbox_turf (scene [parcel_far] [park_P] [trail_T])
        = Inl TypeError
   \<and> buildHealthyPlan_MapJs bbox_turf S (scene [parcel_far] [park_P] [trail_T]) = Inl TypeError
   \<and> buildHealthyPlan_MapJs bbox_turf S (scene [] [park_P] [trail_T]) = Inl TypeError
   \<and> findBestEnvironmentalParcel bbox_turf (scene [parcel_far] [park_P] [trail_T]) = None
   \<and> buildHealthyPlan bbox_turf S (scene [parcel_far] [park_P] [trail_T])
        = Inr (scene [parcel_far] [park_P] [trail_T])"
proof -
  have e: "withinBuffer bbox_turf scene_user 2 [parcel_far] = []"
    and e': "withinBuffer bbox_turf scene_user 2 [] = []"
    by (simp_all add: withinBuffer_def in_range_cast)
  from e e' MapJs_raises_when_none_in_range[OF scene_fields(1) scene_fields(2)]
    newer_component_when_none_in_range[OF scene_fields(1) scene_fields(2)]
  show ?thesis by simp
qed

section \<open>Invariants of the runs\<close>

text \<open>
  C3, as amended. In every state the newer component reaches, the environmental parcels and
  the parks that are loaded have their centre inside the San Diego bounding box: both
  fetchers filter on it, and building a plan keeps the geometries. The bike paths are the
  bundled dataset, stored as it is, without a bounding-box check.
\<close>

theorem fetched_collections_within_bounds:
  assumes "reachable T bikePathsData s"
  shows "(\<forall>fs. environmentalData s = Some fs \<longrightarrow>
            (\<forall>f\<in>set fs. isWithinSanDiego (center T (geometry f))))
       \<and> (\<forall>fs. parks s = Some fs \<longrightarrow>
            (\<forall>f\<in>set fs. isWithinSanDiego (center T (geometry f))))
       \<and> (bikePaths s = None \<or> bikePaths s = Some bikePathsData)"
  using reachable_invariant[OF assms] by blast

text \<open>The theorem at a state reached by the four loaders.\<close>

theorem fetched_collections_within_bounds_witness:
  "reachable bbox_turf [trail_T] (scene [parcel_A, parcel_B] [park_P] [trail_T])
   \<and> isWithinSanDiego (center bbox_turf (geometry parcel_A))
   \<and> isWithinSanDiego (center bbox_turf (geometry parcel_B))
   \<and> isWithinSanDiego (center bbox_turf (geometry park_P))
   \<and> bikePaths (scene [parcel_A, parcel_B] [park_P] [trail_T]) = Some [trail_T]"
proof -
  note w = fetched_collections_within_bounds[OF scene_reachable]
  from w[THEN conjunct1, rule_format, OF scene_fields(2)]
  have "isWithinSanDiego (center bbox_turf (geometry parcel_A))"
    "isWithinSanDiego (center bbox_turf (geometry parcel_B))" by simp_all
  moreover from w[THEN conjunct2, THEN conjunct1, rule_format, OF scene_fields(3)]
  have "isWithinSanDiego (center bbox_turf (geometry park_P))" by simp
  moreover from w[THEN conjunct2, THEN conjunct2]
  have "bikePaths (scene [parcel_A, parcel_B] [park_P] [trail_T]) = Some [trail_T]"
    by (simp add: scene_fields)
  ultimately show ?thesis using scene_reachable by simp
qed

text \<open>
  C3 as it is stated fails for the bike paths: a dataset with a trail centred in Los Angeles
  is loaded unchanged, and the selector returns that trail for a parcel it is centred in.
\<close>

theorem bike_paths_unfiltered_counterexample:
  "reachable bbox_turf [trail_far] (loadBikePaths [trail_far] initial_state)
   \<and> bikePaths (loadBikePaths [trail_far] initial_state) = Some [trail_far]
   \<and> \<not> isWithinSanDiego (center bbox_turf (geometry trail_far))
   \<and> findBestEnvironmentalParcel_MapJs bbox_turf (scene [parcel_wide] [] [trail_far])
        = Inr (Some parcel_wide)
   \<and> findBiggestParkOrTrail bbox_turf (scene [parcel_wide] [] [trail_far]) parcel_wide
        = Inr (Some trail_far)"
proof -
  have "reachable bbox_turf [trail_far] (loadBikePaths [trail_far] initial_state)"
    by (intro reachable.bike_paths reachable.mount)
  then show ?thesis
    by (simp add: loadBikePaths_def isWithinSanDiego_cast findBestEnvironmentalParcel_MapJs_def
        findBiggestParkOrTrail_def scene_fields withinBuffer_def parksInParcel_def
        trailsInParcel_def in_range_cast inside_parcel_wide)
qed

text \<open>
  C10. In every state the newer component reaches, the plan, if there is one, has type Park
  and a Polygon as its location. A parcel returned by the ranker has a park centred inside
  it, so the selector, when it returns a destination for this parcel, returns one of these
  parks, a Polygon, and never reaches its trail branch. Every plan a successful
  \<^verbatim>\<open>buildHealthyPlan\<close> leaves in the state has type Park.
\<close>

theorem plans_are_parks:
  assumes "reachable T bikePathsData s"
  shows "(\<forall>pl. healthyPlan s = Some pl \<longrightarrow>
            ptype pl = Park \<and> gtype (geometry (location pl)) = Polygon)
       \<and> (\<forall>bestParcel. findBestEnvironmentalParcel T s = Some bestParcel \<longrightarrow>
            (\<exists>pk. parks s = Some pk \<and> parksInParcel T pk bestParcel \<noteq> [] \<and>
               (\<forall>dest. findBiggestParkOrTrail T s bestParcel = Inr (Some dest) \<longrightarrow>
                  dest \<in> set (parksInParcel T pk bestParcel) \<and>
                  gtype (geometry dest) = Polygon)))
       \<and> (\<forall>S s' pl. buildHealthyPlan T S s = Inr s' \<longrightarrow> healthyPlan s' = Some pl \<longrightarrow>
            ptype pl = Park \<and> gtype (geometry (location pl)) = Polygon)"
proof (intro conjI allI impI)
  fix pl assume "healthyPlan s = Some pl"
  with reachable_invariant[OF assms]
  show "ptype pl = Park" and "gtype (geometry (location pl)) = Polygon" by blast+
next
  fix bestParcel assume b: "findBestEnvironmentalParcel T s = Some bestParcel"
  from destination_is_park[OF b] obtain pk where pk: "parks s = Some pk"
    and ne: "parksInParcel T pk bestParcel \<noteq> []"
    and d: "\<forall>dest. findBiggestParkOrTrail T s bestParcel = Inr (Some dest) \<longrightarrow>
                dest \<in> set (parksInParcel T pk bestParcel)" by blast
  from reachable_invariant[OF assms] pk
  have "\<forall>p\<in>set pk. gtype (geometry p) = Polygon" by blast
  then have "\<forall>p\<in>set (parksInParcel T pk bestParcel). gtype (geometry p) = Polygon"
    by (simp add: parksInParcel_def)
  with pk ne d
  show "\<exists>pk. parks s = Some pk \<and> parksInParcel T pk bestParcel \<noteq> [] \<and>
          (\<forall>dest. findBiggestParkOrTrail T s bestParcel = Inr (Some dest) \<longrightarrow>
              dest \<in> set (parksInParcel T pk bestParcel) \<and> gtype (geometry dest) = Polygon)"
    by blast
next
  fix S s' pl
  assume "buildHealthyPlan T S s = Inr s'" and pl: "healthyPlan s' = Some pl"
  with assms have "reachable T bikePathsData s'" by (blast intro: reachable.plan)
  from reachable_invariant[OF this] pl
  show "ptype pl = Park" and "gtype (geometry (location pl)) = Polygon" by blast+
qed

text \<open>The theorem at a state reached by the four loaders, with both services failing.\<close>

theorem plans_are_parks_witness:
  "reachable bbox_turf [trail_T] (scene [parcel_A, parcel_B] [park_P] [trail_T])
   \<and> findBestEnvironmentalParcel bbox_turf (scene [parcel_A, parcel_B] [park_P] [trail_T])
        = Some parcel_B
   \<and> findBiggestParkOrTrail bbox_turf (scene [parcel_A, parcel_B] [park_P] [trail_T]) parcel_B
        = Inr (Some park_P)
   \<and> gtype (geometry park_P) = Polygon
   \<and> (\<exists>s' pl. buildHealthyPlan bbox_turf offline (scene [parcel_A, parcel_B] [park_P] [trail_T])
                  = Inr s' \<and>
               healthyPlan s' = Some pl \<and> location pl = park_P \<and> ptype pl = Park)"
proof -
  let ?s = "scene [parcel_A, parcel_B] [park_P] [trail_T]"
  note w = plans_are_parks[OF scene_reachable]
  have b: "findBestEnvironmentalParcel bbox_turf ?s = Some parcel_B"
    by (simp add: plan_eval)
  have d: "findBiggestParkOrTrail bbox_turf ?s parcel_B = Inr (Some park_P)"
    by (simp add: plan_eval)
  from w[THEN conjunct2, THEN conjunct1, rule_format, OF b] d
  have g: "gtype (geometry park_P) = Polygon" by blast
  from generateParkGuide_acres[of park_P 5 offline] obtain gd where
    "generateParkGuide offline park_P = Inr gd" by (auto simp: cast_attributes)
  from buildHealthyPlan_guide[OF b d this] obtain s' pl where
    s': "buildHealthyPlan bbox_turf offline ?s = Inr s'" and pl: "healthyPlan s' = Some pl"
    and l: "location pl = park_P" by force
  from w[THEN conjunct2, THEN conjunct2, rule_format, OF s' pl] have "ptype pl = Park" by simp
  with s' pl l b d g scene_reachable show ?thesis by blast
qed

end
